theory Spec2Isabelle
  imports Main "HOL-Library.Sublist" "HOL-Library.Multiset"
begin

section \<open>Python strings\<close>

text \<open>
  Python \<open>str\<close> values are modelled as \<open>string\<close>, one \<open>char\<close> per code point, for
  text with code points up to 0xFF. \<open>lower\<close> folds the letters A to Z and the upper-case
  letters 0xC0 to 0xDE (0xD7, the multiplication sign, is not a letter). The white space of
  \<open>str.strip\<close> and of the regular expression class \<open>\s\<close> is that of \<open>str.isspace\<close>:
  tab, line feed, vertical tab, form feed, carriage return, the separators 0x1C to 0x1F,
  the blank, next line (0x85) and the no-break space (0xA0). \<open>\d\<close> is the digits 0 to 9.
\<close>

definition ascii_uppercase :: string where
  "ascii_uppercase = ''ABCDEFGHIJKLMNOPQRSTUVWXYZ''"

definition ascii_lowercase :: string where
  "ascii_lowercase = ''abcdefghijklmnopqrstuvwxyz''"

definition latin1_uppercase :: string where
  "latin1_uppercase =
     [CHR 0xC0, CHR 0xC1, CHR 0xC2, CHR 0xC3, CHR 0xC4, CHR 0xC5, CHR 0xC6, CHR 0xC7,
      CHR 0xC8, CHR 0xC9, CHR 0xCA, CHR 0xCB, CHR 0xCC, CHR 0xCD, CHR 0xCE, CHR 0xCF,
      CHR 0xD0, CHR 0xD1, CHR 0xD2, CHR 0xD3, CHR 0xD4, CHR 0xD5, CHR 0xD6,
      CHR 0xD8, CHR 0xD9, CHR 0xDA, CHR 0xDB, CHR 0xDC, CHR 0xDD, CHR 0xDE]"

definition latin1_lowercase :: string where
  "latin1_lowercase =
     [CHR 0xE0, CHR 0xE1, CHR 0xE2, CHR 0xE3, CHR 0xE4, CHR 0xE5, CHR 0xE6, CHR 0xE7,
      CHR 0xE8, CHR 0xE9, CHR 0xEA, CHR 0xEB, CHR 0xEC, CHR 0xED, CHR 0xEE, CHR 0xEF,
      CHR 0xF0, CHR 0xF1, CHR 0xF2, CHR 0xF3, CHR 0xF4, CHR 0xF5, CHR 0xF6,
      CHR 0xF8, CHR 0xF9, CHR 0xFA, CHR 0xFB, CHR 0xFC, CHR 0xFD, CHR 0xFE]"

definition lower_char :: "char \<Rightarrow> char" where
  "lower_char c =
     (case map_of (zip (ascii_uppercase @ latin1_uppercase) (ascii_lowercase @ latin1_lowercase)) c of
        Some d \<Rightarrow> d | None \<Rightarrow> c)"

definition lower :: "string \<Rightarrow> string" where
  "lower s = map lower_char s"

definition isspace :: "char \<Rightarrow> bool" where
  "isspace c = (c \<in> set [CHR 0x09, CHR 0x0A, CHR 0x0B, CHR 0x0C, CHR 0x0D,
                          CHR 0x1C, CHR 0x1D, CHR 0x1E, CHR 0x1F, CHR 0x20, CHR 0x85, CHR 0xA0])"

definition isdigit :: "char \<Rightarrow> bool" where
  "isdigit c = (c \<in> set ''0123456789'')"

definition strip :: "string \<Rightarrow> string" where
  "strip s = rev (dropWhile isspace (rev (dropWhile isspace s)))"

text \<open>\<open>kw in s\<close> on two strings is the substring test.\<close>

definition py_in :: "string \<Rightarrow> string \<Rightarrow> bool" where
  "py_in kw s = sublist kw s"

fun join :: "string \<Rightarrow> string list \<Rightarrow> string" where
  "join sep [] = []"
| "join sep [x] = x"
| "join sep (x # y # ys) = x @ sep @ join sep (y # ys)"

text \<open>\<open>s.replace(",", "")\<close>\<close>

definition remove_commas :: "string \<Rightarrow> string" where
  "remove_commas s = filter (\<lambda>c. c \<noteq> CHR '','') s"

definition digit_val :: "char \<Rightarrow> int" where
  "digit_val c = (case map_of (zip ''0123456789'' [0, 1, 2, 3, 4, 5, 6, 7, 8, 9]) c of
                    Some d \<Rightarrow> d | None \<Rightarrow> 0)"

text \<open>
  \<open>int(s)\<close> as the size loop uses it: the argument is a group of the regular expression
  with its commas removed. A non-empty string of digits is read in base ten; anything else
  is the \<open>ValueError\<close> branch, \<open>None\<close>. (Python's \<open>int\<close> also reads a sign, surrounding
  white space and underscores.)
\<close>

definition py_int :: "string \<Rightarrow> int option" where
  "py_int s = (if s \<noteq> [] \<and> list_all isdigit s
               then Some (foldl (\<lambda>a c. 10 * a + digit_val c) 0 s) else None)"

definition digit_char :: "nat \<Rightarrow> char" where
  "digit_char d = ''0123456789'' ! d"

function str_nat :: "nat \<Rightarrow> string" where
  "str_nat n = (if n < 10 then [digit_char n]
                else str_nat (n div 10) @ [digit_char (n mod 10)])"
  by pat_completeness auto
termination
  by (relation "measure id") auto

declare str_nat.simps [simp del]

definition str_int :: "int \<Rightarrow> string" where
  "str_int i = (if i < 0 then CHR ''-'' # str_nat (nat (- i)) else str_nat (nat i))"

section \<open>Regular expressions of the size patterns\<close>

text \<open>
  The four size patterns use literal text, an optional character \<open>c?\<close>, a greedy
  repetition \<open>[class]+\<close> of a character class, and one capturing group \<open>(\d+)\<close>.
  \<open>rx_match\<close> is the backtracking matcher of \<open>re\<close> on such a sequence: it matches the
  items at the start of the input, greedy repetitions trying the longest run first and
  giving characters back one at a time, and returns the text of the group of the first
  match found. \<open>re_search\<close> tries the start positions from left to right.
\<close>

datatype item =
    Lit string
  | Opt char
  | Plus "char \<Rightarrow> bool"
  | Cap "char \<Rightarrow> bool"

fun try_down :: "(nat \<Rightarrow> 'a option) \<Rightarrow> nat \<Rightarrow> 'a option" where
  "try_down f 0 = None"
| "try_down f (Suc n) = (case f (Suc n) of Some x \<Rightarrow> Some x | None \<Rightarrow> try_down f n)"

fun rx_match :: "item list \<Rightarrow> string \<Rightarrow> string \<Rightarrow> string option" where
  "rx_match [] s g = Some g"
| "rx_match (Lit l # r) s g =
     (if prefix l s then rx_match r (drop (length l) s) g else None)"
| "rx_match (Opt c # r) s g =
     (case (if prefix [c] s then rx_match r (drop 1 s) g else None) of
        Some g' \<Rightarrow> Some g'
      | None \<Rightarrow> rx_match r s g)"
| "rx_match (Plus P # r) s g =
     try_down (\<lambda>n. rx_match r (drop n s) g) (length (takeWhile P s))"
| "rx_match (Cap P # r) s g =
     try_down (\<lambda>n. rx_match r (drop n s) (take n s)) (length (takeWhile P s))"

fun re_search :: "item list \<Rightarrow> string \<Rightarrow> string option" where
  "re_search p [] = rx_match p [] []"
| "re_search p (c # cs) =
     (case rx_match p (c # cs) [] of Some g \<Rightarrow> Some g | None \<Rightarrow> re_search p cs)"

section \<open>Account records\<close>

text \<open>
  The dictionary returned by the \<open>get_user_company\<close> tool. The keys read by the pipeline
  are \<open>username\<close>, \<open>company\<close>, \<open>organizations\<close> and \<open>error\<close>; a key that is absent or
  \<open>None\<close> is \<open>None\<close> here. The remaining profile keys (name, bio, location, blog, email,
  twitter_username, followers, following, public_repos) are never read.
\<close>

record user_info =
  ui_username :: string
  ui_company :: "string option"
  ui_organizations :: "string list"
  ui_error :: "string option"

section \<open>evaluator.py\<close>

datatype size_field = Size int | Unknown

record evaluation =
  company :: string
  score :: int
  recommendation :: string
  reasons :: "string list"
  company_size :: size_field
  summary :: string

definition tech_keywords :: "(string \<times> int) list" where
  "tech_keywords =
     [(''ai'', 10), (''artificial intelligence'', 10), (''machine learning'', 10), (''ml'', 8),
      (''data science'', 10), (''data analytics'', 8), (''big data'', 8),
      (''scraping'', 15), (''web scraping'', 15), (''data extraction'', 12),
      (''automation'', 8), (''rpa'', 10), (''robotic process'', 10),
      (''api'', 5), (''integration'', 5), (''etl'', 8), (''data pipeline'', 10)]"

definition industry_keywords :: "(string \<times> int) list" where
  "industry_keywords =
     [(''e-commerce'', 15), (''retail'', 12), (''marketplace'', 12),
      (''fintech'', 10), (''finance'', 8), (''banking'', 8),
      (''saas'', 10), (''software'', 8), (''technology'', 5),
      (''analytics'', 10), (''intelligence'', 8), (''insights'', 8),
      (''marketing'', 8), (''advertising'', 8), (''media'', 6)]"

text \<open>
  The loop \<open>for keyword, points in table.items(): if keyword in info_lower: ...\<close>, in the
  insertion order of the dictionary, with the running score and the list of keywords found.
\<close>

fun keyword_loop :: "(string \<times> int) list \<Rightarrow> string \<Rightarrow> int \<Rightarrow> string list \<Rightarrow> int \<times> string list" where
  "keyword_loop [] info_lower sc found = (sc, found)"
| "keyword_loop ((keyword, points) # rest) info_lower sc found =
     (if py_in keyword info_lower
      then keyword_loop rest info_lower (sc + points) (found @ [keyword])
      else keyword_loop rest info_lower sc found)"

text \<open>Uncapped keyword sums and the keywords found, as the two loops leave them.\<close>

definition tech_raw :: "string \<Rightarrow> int" where
  "tech_raw info_lower = fst (keyword_loop tech_keywords info_lower 0 [])"

definition found_tech :: "string \<Rightarrow> string list" where
  "found_tech info_lower = snd (keyword_loop tech_keywords info_lower 0 [])"

definition industry_raw :: "string \<Rightarrow> int" where
  "industry_raw info_lower = fst (keyword_loop industry_keywords info_lower 0 [])"

definition found_industries :: "string \<Rightarrow> string list" where
  "found_industries info_lower = snd (keyword_loop industry_keywords info_lower 0 [])"

definition tech_score :: "string \<Rightarrow> int" where
  "tech_score info_lower = min (tech_raw info_lower) 40"

definition industry_score :: "string \<Rightarrow> int" where
  "industry_score info_lower = min (industry_raw info_lower) 30"

text \<open>
  The size patterns, in the order of the list; each has one group, the group the loop reads:
  \<^verbatim>\<open>(\d+)[\s\-,]+employees\<close>, \<^verbatim>\<open>employees?[\s:]+(\d+)\<close>, \<^verbatim>\<open>team\s+of\s+(\d+)\<close>,
  \<^verbatim>\<open>(\d+)\s+people\<close>.
\<close>

definition size_patterns :: "item list list" where
  "size_patterns =
     [[Cap isdigit, Plus (\<lambda>c. isspace c \<or> c = CHR ''-'' \<or> c = CHR '',''), Lit ''employees''],
      [Lit ''employee'', Opt CHR ''s'', Plus (\<lambda>c. isspace c \<or> c = CHR '':''), Cap isdigit],
      [Lit ''team'', Plus isspace, Lit ''of'', Plus isspace, Cap isdigit],
      [Cap isdigit, Plus isspace, Lit ''people'']]"

text \<open>
  The size loop: the first pattern that matches and whose group \<open>int\<close> reads ends the loop
  (\<open>break\<close>); a \<open>ValueError\<close> is swallowed (\<open>pass\<close>) and the loop goes on; with no pattern
  left, \<open>company_size\<close> keeps its initial value 0.
\<close>

fun size_loop :: "item list list \<Rightarrow> string \<Rightarrow> int" where
  "size_loop [] info_lower = 0"
| "size_loop (pattern # rest) info_lower =
     (case re_search pattern info_lower of
        None \<Rightarrow> size_loop rest info_lower
      | Some g \<Rightarrow>
          (case py_int (remove_commas g) of
             Some n \<Rightarrow> n
           | None \<Rightarrow> size_loop rest info_lower))"

definition find_company_size :: "string \<Rightarrow> int" where
  "find_company_size info_lower = size_loop size_patterns info_lower"

text \<open>Points and reason of the size tier, \<open>None\<close> where no branch adds anything.\<close>

definition size_tier :: "int \<Rightarrow> (int \<times> string) option" where
  "size_tier n =
     (if n > 0 then
        (if n \<ge> 1000 then Some (20, ''Large enterprise ('' @ str_int n @ ''+ employees)'')
         else if n \<ge> 200 then Some (15, ''Mid-size company ('' @ str_int n @ '' employees)'')
         else if n \<ge> 50 then Some (10, ''Growing company ('' @ str_int n @ '' employees)'')
         else if n \<ge> 10 then Some (5, ''Small company ('' @ str_int n @ '' employees)'')
         else None)
      else None)"

definition size_points :: "string \<Rightarrow> int" where
  "size_points info_lower =
     (case size_tier (find_company_size info_lower) of Some (pts, _) \<Rightarrow> pts | None \<Rightarrow> 0)"

definition growth_keywords :: "string list" where
  "growth_keywords = [''scaling'', ''growing'', ''expanding'', ''hiring'', ''series a'', ''series b'',
                      ''series c'', ''funded'', ''funding'', ''investment'', ''unicorn'']"

definition data_need_keywords :: "string list" where
  "data_need_keywords = [''competitive intelligence'', ''market research'',
                         ''price monitoring'', ''lead generation'',
                         ''content aggregation'', ''data collection'']"

definition growth_found :: "string \<Rightarrow> string list" where
  "growth_found info_lower = filter (\<lambda>kw. py_in kw info_lower) growth_keywords"

definition growth_points :: "string \<Rightarrow> int" where
  "growth_points info_lower = (if growth_found info_lower \<noteq> [] then 10 else 0)"

definition data_points :: "string \<Rightarrow> int" where
  "data_points info_lower =
     (if list_ex (\<lambda>keyword. py_in keyword info_lower) data_need_keywords then 10 else 0)"

definition recommend :: "int \<Rightarrow> string" where
  "recommend final_score =
     (if final_score \<ge> 70 then ''High Priority''
      else if final_score \<ge> 50 then ''Medium Priority''
      else if final_score \<ge> 30 then ''Low Priority''
      else ''Not Recommended'')"

text \<open>The reasons, in the order the function appends them.\<close>

definition reasons_of :: "string \<Rightarrow> string list" where
  "reasons_of info_lower =
     (if found_tech info_lower \<noteq> []
      then [''Uses relevant technologies: '' @ join '', '' (take 3 (found_tech info_lower))] else [])
     @ (if found_industries info_lower \<noteq> []
        then [''Operates in relevant industries: '' @ join '', '' (take 2 (found_industries info_lower))]
        else [])
     @ (case size_tier (find_company_size info_lower) of Some (_, reason) \<Rightarrow> [reason] | None \<Rightarrow> [])
     @ (if growth_found info_lower \<noteq> [] then [''Shows growth indicators''] else [])
     @ (if list_ex (\<lambda>keyword. py_in keyword info_lower) data_need_keywords
        then [''Has explicit data collection needs''] else [])"

definition total_score :: "string \<Rightarrow> int" where
  "total_score info_lower =
     0 + tech_score info_lower + industry_score info_lower + size_points info_lower
       + growth_points info_lower + data_points info_lower"

definition evaluate_company :: "string \<Rightarrow> string \<Rightarrow> user_info option \<Rightarrow> evaluation" where
  "evaluate_company company_name scraped_info user_info =
     (let info_lower = lower scraped_info;
          rs = reasons_of info_lower;
          sz = find_company_size info_lower;
          final_score = min (total_score info_lower) 100;
          rec = recommend final_score
      in \<lparr> company = company_name,
           score = final_score,
           recommendation = rec,
           reasons = rs,
           company_size = (if sz > 0 then Size sz else Unknown),
           summary = rec @ '' - '' @
             (if rs \<noteq> [] then join ''; '' rs else ''Limited relevant indicators found'') \<rparr>)"

text \<open>
  \<open>sorted(evaluations, key=lambda x: x["score"], reverse=True)\<close>: a stable sort by the key;
  with \<open>reverse=True\<close> the list is reversed, sorted stably in ascending order and reversed
  again, which keeps elements of equal key in their input order.
\<close>

definition rank_companies :: "('a evaluation_scheme) list \<Rightarrow> ('a evaluation_scheme) list" where
  "rank_companies evaluations = rev (sort_key score (rev evaluations))"

section \<open>agent.py\<close>

text \<open>
  The three tools are external collaborators; the model takes their behaviour as
  parameters. A call either raises (\<open>Inl\<close> of the text of the exception) or returns
  (\<open>Inr\<close>). \<open>get_user_company\<close> and \<open>search_company_info\<close> are called in loops: their
  outcome may depend on the index of the call as well as on the argument, so that two
  calls with the same argument need not agree.
\<close>

datatype fetch_result =
    FetchStr string
  | FetchList "string list"
  | FetchOther string

datatype invoke_result = Dict user_info | NotDict string

record candidate =
  name :: string
  source_user :: string
  user_info :: user_info

record scored = evaluation +
  ev_source_user :: string
  ev_user_info :: user_info

text \<open>\<open>AgentState\<close>; the \<open>messages\<close> channel stays empty and is never read.\<close>

record agent_state =
  repo :: string
  stargazers :: "string list"
  companies :: "candidate list"
  evaluations :: "scored list"
  current_step :: string
  error :: "string option"
  max_stargazers :: int
  max_users :: int

text \<open>Truth value of an optional string: \<open>None\<close> and the empty string are false.\<close>

definition truthy :: "string option \<Rightarrow> bool" where
  "truthy v = (case v of None \<Rightarrow> False | Some s \<Rightarrow> s \<noteq> [])"

definition fetch_stargazers_node ::
  "(string \<Rightarrow> int \<Rightarrow> string + fetch_result) \<Rightarrow> agent_state \<Rightarrow> agent_state" where
  "fetch_stargazers_node fetch_stargazers state =
     (case fetch_stargazers (repo state) (max_stargazers state) of
        Inl e \<Rightarrow> state\<lparr>error := Some (''Error fetching stargazers: '' @ e), current_step := ''end''\<rparr>
      | Inr result \<Rightarrow>
          (case result of
             FetchStr r \<Rightarrow>
               (if prefix ''Error'' r
                then state\<lparr>error := Some r, stargazers := []\<rparr>
                else state\<lparr>error := Some ''Unexpected string response from fetch_stargazers'',
                           stargazers := []\<rparr>)
           | FetchList r \<Rightarrow>
               (if r \<noteq> [] \<and> prefix ''Error'' (hd r)
                then state\<lparr>error := Some (hd r), stargazers := []\<rparr>
                else state\<lparr>stargazers := r\<rparr>)
           | FetchOther t \<Rightarrow>
               state\<lparr>error := Some (''Unexpected response type: '' @ t), stargazers := []\<rparr>)
          \<lparr>current_step := ''trace_companies''\<rparr>)"

text \<open>\<open>xs[:m]\<close>: a negative bound counts from the end.\<close>

definition slice_to :: "'a list \<Rightarrow> int \<Rightarrow> 'a list" where
  "slice_to xs m = (if m < 0 then take (nat (int (length xs) + m)) xs else take (nat m) xs)"

text \<open>
  The company name of one account: the stripped \<open>company\<close> when that field is true, else
  the first organization when the list is not empty, else \<open>None\<close>.
\<close>

definition extract_company_name :: "user_info \<Rightarrow> string option" where
  "extract_company_name ui =
     (if truthy (ui_company ui) then Some (strip (the (ui_company ui)))
      else if ui_organizations ui \<noteq> [] then Some (hd (ui_organizations ui))
      else None)"

definition as_user_info :: "string \<Rightarrow> invoke_result \<Rightarrow> user_info" where
  "as_user_info user result =
     (case result of
        Dict d \<Rightarrow> d
      | NotDict r \<Rightarrow> \<lparr>ui_username = user, ui_company = None, ui_organizations = [],
                      ui_error = Some r\<rparr>)"

fun trace_loop ::
  "(nat \<Rightarrow> string \<Rightarrow> string + invoke_result) \<Rightarrow> nat \<Rightarrow> string list \<Rightarrow>
     candidate list \<Rightarrow> string set \<Rightarrow> string + candidate list" where
  "trace_loop get_user_company i [] companies_acc processed_companies = Inr companies_acc"
| "trace_loop get_user_company i (user # rest) companies_acc processed_companies =
     (case get_user_company i user of
        Inl e \<Rightarrow> Inl e
      | Inr result \<Rightarrow>
          (let ui = as_user_info user result;
               company_name = extract_company_name ui
           in if truthy company_name \<and> the company_name \<notin> processed_companies
              then trace_loop get_user_company (Suc i) rest
                     (companies_acc @ [\<lparr>name = the company_name, source_user = user, user_info = ui\<rparr>])
                     (insert (the company_name) processed_companies)
              else trace_loop get_user_company (Suc i) rest companies_acc processed_companies))"

definition trace_companies_node ::
  "(nat \<Rightarrow> string \<Rightarrow> string + invoke_result) \<Rightarrow> agent_state \<Rightarrow> agent_state" where
  "trace_companies_node get_user_company state =
     (let configured_max = max_users state;
          mu = min (int (length (stargazers state))) configured_max
      in case trace_loop get_user_company 0 (slice_to (stargazers state) mu) [] {} of
           Inl e \<Rightarrow> state\<lparr>error := Some (''Error tracing companies: '' @ e), current_step := ''end''\<rparr>
         | Inr cs \<Rightarrow> state\<lparr>companies := cs, current_step := ''evaluate_companies''\<rparr>)"

text \<open>
  The evaluation loop. A search that raises, and one that returns an empty text, are
  replaced by a fixed text and scored like any other.
\<close>

fun evaluate_loop ::
  "(nat \<Rightarrow> string \<Rightarrow> string + string) \<Rightarrow> nat \<Rightarrow> candidate list \<Rightarrow> scored list \<Rightarrow> scored list" where
  "evaluate_loop search_company_info i [] evs = evs"
| "evaluate_loop search_company_info i (c # rest) evs =
     (let company_info =
            (case search_company_info i (name c) of
               Inl e \<Rightarrow> ''Error retrieving information: '' @ e
             | Inr r \<Rightarrow> (if r \<noteq> [] then r else ''No information found''));
          ev = evaluate_company (name c) company_info (Some (user_info c))
      in evaluate_loop search_company_info (Suc i) rest
           (evs @ [evaluation.extend ev
                     (scored.fields (source_user c) (user_info c))]))"

definition evaluate_companies_node ::
  "(nat \<Rightarrow> string \<Rightarrow> string + string) \<Rightarrow> agent_state \<Rightarrow> agent_state" where
  "evaluate_companies_node search_company_info state =
     state\<lparr>evaluations := rank_companies (evaluate_loop search_company_info 0 (companies state) []),
           current_step := ''end''\<rparr>"

definition should_continue :: "agent_state \<Rightarrow> string" where
  "should_continue state =
     (if truthy (error state) then ''end''
      else (let step = current_step state
            in if step = ''fetch'' then ''fetch''
               else if step = ''trace_companies'' then ''trace''
               else if step = ''evaluate_companies'' then ''evaluate''
               else ''end''))"

text \<open>
  The compiled workflow: the conditional edge from the start, then \<open>fetch\<close>, \<open>trace\<close> and
  \<open>evaluate\<close>, each followed by its edge. The result is the list of the nodes that ran and
  the final state. A route of \<open>should_continue\<close> with no entry in the mapping of the start
  edge makes the library raise; the text of that exception is not part of the source, the
  name of the route stands for it.
\<close>

datatype node = Fetch | Trace | Evaluate

definition after_fetch :: "agent_state \<Rightarrow> string" where
  "after_fetch x = (if \<not> truthy (error x) \<and> stargazers x \<noteq> [] then ''trace'' else ''end'')"

definition after_trace :: "agent_state \<Rightarrow> string" where
  "after_trace x = (if \<not> truthy (error x) \<and> companies x \<noteq> [] then ''evaluate'' else ''end'')"

definition graph_invoke ::
  "(string \<Rightarrow> int \<Rightarrow> string + fetch_result) \<Rightarrow> (nat \<Rightarrow> string \<Rightarrow> string + invoke_result) \<Rightarrow>
     (nat \<Rightarrow> string \<Rightarrow> string + string) \<Rightarrow> agent_state \<Rightarrow> string + node list \<times> agent_state" where
  "graph_invoke fetch_stargazers get_user_company search_company_info s0 =
     (let route = should_continue s0
      in if route = ''end'' then Inr ([], s0)
         else if route = ''fetch'' then
           (let s1 = fetch_stargazers_node fetch_stargazers s0
            in if after_fetch s1 = ''trace'' then
                 (let s2 = trace_companies_node get_user_company s1
                  in if after_trace s2 = ''evaluate''
                     then Inr ([Fetch, Trace, Evaluate], evaluate_companies_node search_company_info s2)
                     else Inr ([Fetch, Trace], s2))
               else Inr ([Fetch], s1))
         else Inl route)"

record run_result =
  success :: bool
  result_error :: "string option"
  result_evaluations :: "scored list"
  total_stargazers :: int
  total_companies :: int

definition initial_state :: "string \<Rightarrow> int \<Rightarrow> int \<Rightarrow> agent_state" where
  "initial_state r ms mu =
     \<lparr>repo = r, stargazers = [], companies = [], evaluations = [], current_step = ''fetch'',
      error = None, max_stargazers = ms, max_users = mu\<rparr>"

definition run_agent ::
  "(string \<Rightarrow> int \<Rightarrow> string + fetch_result) \<Rightarrow> (nat \<Rightarrow> string \<Rightarrow> string + invoke_result) \<Rightarrow>
     (nat \<Rightarrow> string \<Rightarrow> string + string) \<Rightarrow> string \<Rightarrow> int \<Rightarrow> int \<Rightarrow> run_result" where
  "run_agent fetch_stargazers get_user_company search_company_info r ms mu =
     (case graph_invoke fetch_stargazers get_user_company search_company_info (initial_state r ms mu) of
        Inr (visited, result) \<Rightarrow>
          \<lparr>success = \<not> truthy (error result),
           result_error = error result,
           result_evaluations = evaluations result,
           total_stargazers = int (length (stargazers result)),
           total_companies = int (length (companies result))\<rparr>
      | Inl e \<Rightarrow>
          \<lparr>success = False, result_error = Some e, result_evaluations = [],
           total_stargazers = 0, total_companies = 0\<rparr>)"

text \<open>The nodes a run visits, read off the same invocation.\<close>

definition run_visited ::
  "(string \<Rightarrow> int \<Rightarrow> string + fetch_result) \<Rightarrow> (nat \<Rightarrow> string \<Rightarrow> string + invoke_result) \<Rightarrow>
     (nat \<Rightarrow> string \<Rightarrow> string + string) \<Rightarrow> string \<Rightarrow> int \<Rightarrow> int \<Rightarrow> node list" where
  "run_visited fetch_stargazers get_user_company search_company_info r ms mu =
     (case graph_invoke fetch_stargazers get_user_company search_company_info (initial_state r ms mu) of
        Inr (visited, result) \<Rightarrow> visited
      | Inl e \<Rightarrow> [])"

section \<open>Notions and inputs of the statements\<close>

text \<open>A dictionary that carries a score and nothing else, as the ranking test builds them.\<close>

definition scored_only :: "int \<Rightarrow> evaluation" where
  "scored_only s = \<lparr>company = [], score = s, recommendation = [], reasons = [],
                     company_size = Unknown, summary = []\<rparr>"

text \<open>
  The accounts the trace loop visits, each user with the record the tool returned for it,
  up to the first call that raises.
\<close>

fun accounts ::
  "(nat \<Rightarrow> string \<Rightarrow> string + invoke_result) \<Rightarrow> nat \<Rightarrow> string list \<Rightarrow> (string \<times> user_info) list" where
  "accounts get_user_company i [] = []"
| "accounts get_user_company i (user # rest) =
     (case get_user_company i user of
        Inl e \<Rightarrow> []
      | Inr result \<Rightarrow> (user, as_user_info user result) # accounts get_user_company (Suc i) rest)"

text \<open>The name under which an account becomes a candidate: its company name, when not empty.\<close>

definition candidate_name :: "user_info \<Rightarrow> string option" where
  "candidate_name ui =
     (if truthy (extract_company_name ui) then extract_company_name ui else None)"

text \<open>The elements of a list in the order of their first occurrence, each once.\<close>

primrec first_seen :: "'a list \<Rightarrow> 'a list" where
  "first_seen [] = []"
| "first_seen (x # xs) = x # filter (\<lambda>y. y \<noteq> x) (first_seen xs)"

text \<open>The candidate names of a list of accounts, accounts without one left out.\<close>

definition account_names :: "(string \<times> user_info) list \<Rightarrow> string list" where
  "account_names recs = List.map_filter (\<lambda>r. candidate_name (snd r)) recs"

text \<open>The users the trace stage visits: \<open>state["stargazers"][:max_users]\<close>.\<close>

definition trace_users :: "agent_state \<Rightarrow> string list" where
  "trace_users state =
     slice_to (stargazers state) (min (int (length (stargazers state))) (max_users state))"

text \<open>
  An account tool that answers its calls with the records of a list, in order, and raises
  once the list is used up.
\<close>

definition tool_of_records :: "user_info list \<Rightarrow> nat \<Rightarrow> string \<Rightarrow> string + invoke_result" where
  "tool_of_records records i user =
     (if i < length records then Inr (Dict (records ! i)) else Inl ''no response'')"

text \<open>Three accounts: company Acme, no company but the organization Acme-Org, company Acme.\<close>

definition scenario_c_records :: "user_info list" where
  "scenario_c_records =
     [\<lparr>ui_username = ''u0'', ui_company = Some ''Acme'', ui_organizations = [], ui_error = None\<rparr>,
      \<lparr>ui_username = ''u1'', ui_company = None, ui_organizations = [''Acme-Org''], ui_error = None\<rparr>,
      \<lparr>ui_username = ''u2'', ui_company = Some ''Acme'', ui_organizations = [], ui_error = None\<rparr>]"

definition scenario_c_state :: agent_state where
  "scenario_c_state =
     \<lparr>repo = ''owner/name'', stargazers = [''u0'', ''u1'', ''u2''], companies = [], evaluations = [],
      current_step = ''trace_companies'', error = None, max_stargazers = 1000, max_users = 3\<rparr>"

text \<open>
  Two accounts whose names start with an at sign: the company \<open>@Acme\<close>, and no company
  but the organization \<open>@acme-org\<close>.
\<close>

definition at_records :: "user_info list" where
  "at_records =
     [\<lparr>ui_username = ''u0'', ui_company = Some ''@Acme'', ui_organizations = [], ui_error = None\<rparr>,
      \<lparr>ui_username = ''u1'', ui_company = None, ui_organizations = [''@acme-org''], ui_error = None\<rparr>]"

definition at_state :: agent_state where
  "at_state =
     \<lparr>repo = ''owner/name'', stargazers = [''u0'', ''u1''], companies = [], evaluations = [],
      current_step = ''trace_companies'', error = None, max_stargazers = 1000, max_users = 100\<rparr>"

text \<open>The state after the fetch node, and after the fetch and trace nodes, of a run.\<close>

definition fetched :: "(string \<Rightarrow> int \<Rightarrow> string + fetch_result) \<Rightarrow> string \<Rightarrow> int \<Rightarrow> int \<Rightarrow> agent_state" where
  "fetched fetch_stargazers r ms mu = fetch_stargazers_node fetch_stargazers (initial_state r ms mu)"

definition traced ::
  "(string \<Rightarrow> int \<Rightarrow> string + fetch_result) \<Rightarrow> (nat \<Rightarrow> string \<Rightarrow> string + invoke_result) \<Rightarrow>
     string \<Rightarrow> int \<Rightarrow> int \<Rightarrow> agent_state" where
  "traced fetch_stargazers get_user_company r ms mu =
     trace_companies_node get_user_company (fetched fetch_stargazers r ms mu)"

text \<open>
  Tools of the example runs: a repository with the one stargazer \<open>u0\<close>, a repository that
  is not found, an account without company and organizations, and a search that finds
  nothing.
\<close>

definition fetch_one :: "string \<Rightarrow> int \<Rightarrow> string + fetch_result" where
  "fetch_one r m = Inr (FetchList [''u0''])"

definition fetch_not_found :: "string \<Rightarrow> int \<Rightarrow> string + fetch_result" where
  "fetch_not_found r m = Inr (FetchList [''Error: Repository not found''])"

definition no_company_records :: "user_info list" where
  "no_company_records =
     [\<lparr>ui_username = ''u0'', ui_company = None, ui_organizations = [], ui_error = None\<rparr>]"

definition search_nothing :: "nat \<Rightarrow> string \<Rightarrow> string + string" where
  "search_nothing i n = Inr []"

text \<open>The information text of the high-relevance example.\<close>

definition scenario_a_text :: string where
  "scenario_a_text =
     ''AI and machine learning company with web scraping and 500 employees, Series B funding''"

section \<open>Properties of the scoring\<close>

lemma keyword_loop_eq:
  "keyword_loop kws info sc found =
     (sc + sum_list (map snd (filter (\<lambda>kp. py_in (fst kp) info) kws)),
      found @ map fst (filter (\<lambda>kp. py_in (fst kp) info) kws))"
  by (induction kws info sc found rule: keyword_loop.induct) auto

lemma sum_list_filter_bounds:
  fixes kws :: "(string \<times> int) list"
  assumes "\<forall>kp \<in> set kws. 0 \<le> snd kp"
  shows "0 \<le> sum_list (map snd (filter P kws))"
  using assms by (induction kws) auto

lemma tech_keywords_nonneg: "\<forall>kp \<in> set tech_keywords. 0 \<le> snd kp"
  by (simp add: tech_keywords_def)

lemma industry_keywords_nonneg: "\<forall>kp \<in> set industry_keywords. 0 \<le> snd kp"
  by (simp add: industry_keywords_def)

lemma tech_raw_nonneg: "0 \<le> tech_raw l"
  unfolding tech_raw_def keyword_loop_eq
  using sum_list_filter_bounds [OF tech_keywords_nonneg] by simp

lemma industry_raw_nonneg: "0 \<le> industry_raw l"
  unfolding industry_raw_def keyword_loop_eq
  using sum_list_filter_bounds [OF industry_keywords_nonneg] by simp

lemma tech_score_range: "0 \<le> tech_score l \<and> tech_score l \<le> 40"
  using tech_raw_nonneg [of l] by (simp add: tech_score_def)

lemma industry_score_range: "0 \<le> industry_score l \<and> industry_score l \<le> 30"
  using industry_raw_nonneg [of l] by (simp add: industry_score_def)

lemma size_points_cases: "size_points l \<in> {0, 5, 10, 15, 20}"
  by (simp add: size_points_def size_tier_def)

lemma size_points_range: "0 \<le> size_points l \<and> size_points l \<le> 20"
  using size_points_cases [of l] by auto

lemma growth_points_range: "0 \<le> growth_points l \<and> growth_points l \<le> 10"
  by (simp add: growth_points_def)

lemma data_points_range: "0 \<le> data_points l \<and> data_points l \<le> 10"
  by (simp add: data_points_def)

lemma score_evaluate_company:
  "score (evaluate_company n t u) = min (total_score (lower t)) 100"
  by (simp add: evaluate_company_def Let_def)

text \<open>
  C1. For every company name, information text and optional account record, the score of
  the evaluation is an integer between 0 and 100: it is the sum of the five sub-scores
  capped at 100, the technology sub-score lies between 0 and 40, the industry sub-score
  between 0 and 30, the size points between 0 and 20, the growth and the data-need points
  between 0 and 10; no sub-score is negative.
\<close>

theorem evaluate_company_score_range:
  "0 \<le> score (evaluate_company company_name scraped_info ui)
   \<and> score (evaluate_company company_name scraped_info ui) \<le> 100
   \<and> score (evaluate_company company_name scraped_info ui) =
       min (tech_score (lower scraped_info) + industry_score (lower scraped_info)
            + size_points (lower scraped_info) + growth_points (lower scraped_info)
            + data_points (lower scraped_info)) 100
   \<and> 0 \<le> tech_score (lower scraped_info) \<and> tech_score (lower scraped_info) \<le> 40
   \<and> 0 \<le> industry_score (lower scraped_info) \<and> industry_score (lower scraped_info) \<le> 30
   \<and> 0 \<le> size_points (lower scraped_info) \<and> size_points (lower scraped_info) \<le> 20
   \<and> 0 \<le> growth_points (lower scraped_info) \<and> growth_points (lower scraped_info) \<le> 10
   \<and> 0 \<le> data_points (lower scraped_info) \<and> data_points (lower scraped_info) \<le> 10"
  using tech_score_range [of "lower scraped_info"] industry_score_range [of "lower scraped_info"]
    size_points_range [of "lower scraped_info"] growth_points_range [of "lower scraped_info"]
    data_points_range [of "lower scraped_info"]
  by (simp add: score_evaluate_company total_score_def)

section \<open>Properties of the ranking\<close>

lemma rank_companies_mset: "mset (rank_companies evs) = mset evs"
  by (simp add: rank_companies_def)

lemma rank_companies_sorted:
  "sorted_wrt (\<lambda>a b. score a \<ge> score b) (rank_companies evs)"
proof -
  have "sorted (map score (sort_key score (rev evs)))"
    by (rule sorted_sort_key)
  then have "sorted_wrt (\<lambda>a b. score a \<le> score b) (sort_key score (rev evs))"
    by (simp add: sorted_map)
  then show ?thesis
    by (simp add: rank_companies_def sorted_wrt_rev)
qed

lemma rank_companies_filter:
  "filter (\<lambda>e. score e = k) (rank_companies evs) = filter (\<lambda>e. score e = k) evs"
proof -
  have "filter (\<lambda>e. score e = k) (rank_companies evs)
        = rev (filter (\<lambda>e. score e = k) (sort_key score (rev evs)))"
    by (simp add: rank_companies_def rev_filter)
  also have "\<dots> = rev (filter (\<lambda>e. score e = k) (rev evs))"
    by (simp only: sort_key_stable)
  also have "\<dots> = filter (\<lambda>e. score e = k) evs"
    by (simp add: rev_filter)
  finally show ?thesis .
qed

text \<open>
  The ranking of the test: scores 50, 80, 30, 65 come out as 80, 65, 50, 30.
\<close>

lemma rank_companies_example:
  "map score (rank_companies [scored_only 50, scored_only 80, scored_only 30, scored_only 65])
   = [80, 65, 50, 30]"
  by (simp add: rank_companies_def scored_only_def)

text \<open>
  C2. For every list of evaluations, \<open>rank_companies\<close> returns the same multiset of
  evaluations, sorted by score in descending order, and the sort is stable: for every
  score, the evaluations with that score appear in the output in the order they had in the
  input.
\<close>

theorem rank_companies_sorted_stable:
  "mset (rank_companies evs) = mset evs
   \<and> sorted_wrt (\<lambda>a b. score a \<ge> score b) (rank_companies evs)
   \<and> (\<forall>k. filter (\<lambda>e. score e = k) (rank_companies evs) = filter (\<lambda>e. score e = k) evs)"
  using rank_companies_mset [of evs] rank_companies_sorted [of evs] rank_companies_filter [of _ evs]
  by simp

section \<open>Properties of the trace stage\<close>

lemma candidate_name_Some:
  "candidate_name ui = Some n \<longleftrightarrow> extract_company_name ui = Some n \<and> n \<noteq> []"
  by (auto simp: candidate_name_def truthy_def split: option.splits)

lemma loop_condition:
  "(truthy (extract_company_name ui) \<and> the (extract_company_name ui) \<notin> proc)
   \<longleftrightarrow> (\<exists>n. candidate_name ui = Some n \<and> n \<notin> proc)"
  by (auto simp: candidate_name_def truthy_def split: option.splits)

lemma set_first_seen: "set (first_seen xs) = set xs"
  by (induction xs) auto

lemma distinct_first_seen: "distinct (first_seen xs)"
  by (induction xs) (auto simp: set_first_seen)

lemma trace_loop_names:
  "trace_loop tool i us acc proc = Inr out \<Longrightarrow>
   map name out = map name acc @ filter (\<lambda>n. n \<notin> proc) (first_seen (account_names (accounts tool i us)))"
proof (induction us arbitrary: i acc proc)
  case Nil
  then show ?case by (simp add: account_names_def map_filter_simps)
next
  case (Cons u us)
  show ?case
  proof (cases "tool i u")
    case (Inl e)
    with Cons.prems show ?thesis by simp
  next
    case (Inr r)
    let ?ui = "as_user_info u r"
    show ?thesis
    proof (cases "candidate_name ?ui")
      case None
      with Inr Cons.prems have "trace_loop tool (Suc i) us acc proc = Inr out"
        by (simp add: Let_def loop_condition)
      from Cons.IH [OF this] None Inr show ?thesis
        by (simp add: account_names_def map_filter_simps)
    next
      case (Some n)
      show ?thesis
      proof (cases "n \<in> proc")
        case True
        with Some Inr Cons.prems have "trace_loop tool (Suc i) us acc proc = Inr out"
          by (simp add: Let_def loop_condition)
        from Cons.IH [OF this] Some Inr True show ?thesis
          by (auto simp add: account_names_def map_filter_simps intro!: filter_cong)
      next
        case False
        from Some have ex: "the (extract_company_name ?ui) = n"
          by (simp add: candidate_name_Some)
        from False Some Inr Cons.prems ex
        have "trace_loop tool (Suc i) us
                (acc @ [\<lparr>name = n, source_user = u, user_info = ?ui\<rparr>]) (insert n proc) = Inr out"
          by (simp add: Let_def loop_condition)
        from Cons.IH [OF this] Some Inr False show ?thesis
          by (auto simp add: account_names_def map_filter_simps intro!: filter_cong)
      qed
    qed
  qed
qed

lemma trace_loop_users:
  "trace_loop tool i us acc proc = Inr out \<Longrightarrow> map fst (accounts tool i us) = us"
proof (induction us arbitrary: i acc proc)
  case Nil
  then show ?case by simp
next
  case (Cons u us)
  then show ?case
    by (cases "tool i u") (auto simp: Let_def split: if_splits)
qed

lemma first_step:
  assumes "c \<in> set acc' \<or> (\<exists>k<length R. R ! k = (source_user c, user_info c)
              \<and> candidate_name (snd (R ! k)) = Some (name c) \<and> name c \<notin> proc'
              \<and> (\<forall>j<k. candidate_name (snd (R ! j)) \<noteq> Some (name c)))"
    and acc': "c \<in> set acc' \<Longrightarrow> c \<in> set acc \<or> (c = \<lparr>name = n, source_user = u, user_info = ui\<rparr>
                  \<and> candidate_name ui = Some n \<and> n \<notin> proc)"
    and proc': "proc \<subseteq> proc'"
    and skip: "name c \<notin> proc' \<Longrightarrow> candidate_name ui \<noteq> Some (name c)"
  shows "c \<in> set acc \<or> (\<exists>k<length ((u, ui) # R). ((u, ui) # R) ! k = (source_user c, user_info c)
              \<and> candidate_name (snd (((u, ui) # R) ! k)) = Some (name c) \<and> name c \<notin> proc
              \<and> (\<forall>j<k. candidate_name (snd (((u, ui) # R) ! j)) \<noteq> Some (name c)))"
  using assms(1)
proof
  assume "c \<in> set acc'"
  from acc' [OF this] show ?thesis
  proof
    assume "c \<in> set acc" then show ?thesis by simp
  next
    assume h: "c = \<lparr>name = n, source_user = u, user_info = ui\<rparr> \<and> candidate_name ui = Some n \<and> n \<notin> proc"
    then have "0 < length ((u, ui) # R) \<and> ((u, ui) # R) ! 0 = (source_user c, user_info c)
              \<and> candidate_name (snd (((u, ui) # R) ! 0)) = Some (name c) \<and> name c \<notin> proc
              \<and> (\<forall>j<0. candidate_name (snd (((u, ui) # R) ! j)) \<noteq> Some (name c))"
      by simp
    then show ?thesis by blast
  qed
next
  assume "\<exists>k<length R. R ! k = (source_user c, user_info c)
              \<and> candidate_name (snd (R ! k)) = Some (name c) \<and> name c \<notin> proc'
              \<and> (\<forall>j<k. candidate_name (snd (R ! j)) \<noteq> Some (name c))"
  then obtain k where k: "k < length R" "R ! k = (source_user c, user_info c)"
     "candidate_name (snd (R ! k)) = Some (name c)" "name c \<notin> proc'"
     "\<forall>j<k. candidate_name (snd (R ! j)) \<noteq> Some (name c)" by blast
  from k(4) proc' have np: "name c \<notin> proc" by blast
  from skip [OF k(4)] have hd: "candidate_name ui \<noteq> Some (name c)" .
  have "\<forall>j<Suc k. candidate_name (snd (((u, ui) # R) ! j)) \<noteq> Some (name c)"
  proof (intro allI impI)
    fix j assume "j < Suc k"
    then show "candidate_name (snd (((u, ui) # R) ! j)) \<noteq> Some (name c)"
      using hd k(5) by (cases j) auto
  qed
  with k np have "Suc k < length ((u, ui) # R) \<and> ((u, ui) # R) ! Suc k = (source_user c, user_info c)
              \<and> candidate_name (snd (((u, ui) # R) ! Suc k)) = Some (name c) \<and> name c \<notin> proc
              \<and> (\<forall>j<Suc k. candidate_name (snd (((u, ui) # R) ! j)) \<noteq> Some (name c))"
    by simp
  then show ?thesis by blast
qed

lemma trace_loop_first:
  "trace_loop tool i us acc proc = Inr out \<Longrightarrow> c \<in> set out \<Longrightarrow>
   c \<in> set acc \<or> (\<exists>k<length (accounts tool i us).
       accounts tool i us ! k = (source_user c, user_info c)
     \<and> candidate_name (snd (accounts tool i us ! k)) = Some (name c) \<and> name c \<notin> proc
     \<and> (\<forall>j<k. candidate_name (snd (accounts tool i us ! j)) \<noteq> Some (name c)))"
proof (induction us arbitrary: i acc proc)
  case Nil
  then show ?case by simp
next
  case (Cons u us)
  show ?case
  proof (cases "tool i u")
    case (Inl e)
    with Cons.prems show ?thesis by simp
  next
    case (Inr r)
    let ?ui = "as_user_info u r"
    have acc_eq: "accounts tool i (u # us) = (u, ?ui) # accounts tool (Suc i) us"
      using Inr by simp
    show ?thesis
    proof (cases "\<exists>n. candidate_name ?ui = Some n \<and> n \<notin> proc")
      case True
      then obtain n where n: "candidate_name ?ui = Some n" "n \<notin> proc" by blast
      then have ex: "the (extract_company_name ?ui) = n"
        by (simp add: candidate_name_Some)
      from True Inr Cons.prems(1) ex
      have run: "trace_loop tool (Suc i) us
                (acc @ [\<lparr>name = n, source_user = u, user_info = ?ui\<rparr>]) (insert n proc) = Inr out"
        by (simp add: Let_def loop_condition)
      show ?thesis
        unfolding acc_eq
      proof (rule first_step [OF Cons.IH [OF run Cons.prems(2)], where n = n])
        show "proc \<subseteq> insert n proc" by blast
      next
        assume "c \<in> set (acc @ [\<lparr>name = n, source_user = u, user_info = ?ui\<rparr>])"
        then show "c \<in> set acc \<or> (c = \<lparr>name = n, source_user = u, user_info = ?ui\<rparr>
                  \<and> candidate_name ?ui = Some n \<and> n \<notin> proc)"
          using n by auto
      next
        assume "name c \<notin> insert n proc"
        then show "candidate_name ?ui \<noteq> Some (name c)" using n by auto
      qed
    next
      case False
      with Inr Cons.prems(1)
      have run: "trace_loop tool (Suc i) us acc proc = Inr out"
        by (simp add: Let_def loop_condition)
      show ?thesis
        unfolding acc_eq
      proof (rule first_step [OF Cons.IH [OF run Cons.prems(2)], where n = "[]"])
        show "proc \<subseteq> proc" by blast
      next
        assume "c \<in> set acc"
        then show "c \<in> set acc \<or> (c = \<lparr>name = [], source_user = u, user_info = ?ui\<rparr>
                  \<and> candidate_name ?ui = Some [] \<and> [] \<notin> proc)" by simp
      next
        assume "name c \<notin> proc"
        then show "candidate_name ?ui \<noteq> Some (name c)" using False by auto
      qed
    qed
  qed
qed

lemma dropWhile_hd: "dropWhile P xs \<noteq> [] \<Longrightarrow> \<not> P (hd (dropWhile P xs))"
  by (metis hd_dropWhile)

lemma strip_trimmed:
  assumes "strip s \<noteq> []"
  shows "\<not> isspace (hd (strip s)) \<and> \<not> isspace (last (strip s))"
proof -
  let ?t = "dropWhile isspace s"
  let ?u = "dropWhile isspace (rev ?t)"
  from assms have u: "?u \<noteq> []" by (simp add: strip_def)
  then have "rev ?t \<noteq> []" by (metis dropWhile.simps(1))
  then have t: "?t \<noteq> []" by (metis rev.simps(1))
  have l: "\<not> isspace (hd ?u)" using u by (rule dropWhile_hd)
  have "last ?u = last (rev ?t)"
    using u by (metis last_appendR takeWhile_dropWhile_id)
  also have "\<dots> = hd ?t" using t by (simp add: last_rev)
  finally have "\<not> isspace (last ?u)" using dropWhile_hd [OF t] by simp
  with l u show ?thesis
    by (simp add: strip_def hd_rev last_rev)
qed

lemma strip_idem: "strip (strip s) = strip s"
proof (cases "strip s = []")
  case True
  have "strip [] = []" by (simp add: strip_def)
  with True show ?thesis by simp
next
  case False
  from strip_trimmed [OF False] False have
    a: "dropWhile isspace (strip s) = strip s"
    by (cases "strip s") auto
  from strip_trimmed [OF False] False have
    "dropWhile isspace (rev (strip s)) = rev (strip s)"
    by (cases "rev (strip s)") (auto simp: last_rev [symmetric] hd_rev)
  then show ?thesis using a
    by (simp add: strip_def [of "strip s"])
qed

lemma trace_node_complete:
  assumes "current_step (trace_companies_node tool st) = ''evaluate_companies''"
  shows "trace_loop tool 0 (trace_users st) [] {} = Inr (companies (trace_companies_node tool st))"
  using assms
  by (cases "trace_loop tool 0 (trace_users st) [] {}")
     (simp_all add: trace_companies_node_def trace_users_def Let_def)

lemma scenario_c_run:
  "trace_companies_node (tool_of_records scenario_c_records) scenario_c_state =
     scenario_c_state\<lparr>companies :=
        [\<lparr>name = ''Acme'', source_user = ''u0'', user_info = scenario_c_records ! 0\<rparr>,
         \<lparr>name = ''Acme-Org'', source_user = ''u1'', user_info = scenario_c_records ! 1\<rparr>],
       current_step := ''evaluate_companies''\<rparr>"
  by (simp add: trace_companies_node_def scenario_c_state_def scenario_c_records_def
      tool_of_records_def slice_to_def Let_def as_user_info_def extract_company_name_def
      truthy_def strip_def isspace_def)

lemma at_run:
  "trace_companies_node (tool_of_records at_records) at_state =
     at_state\<lparr>companies :=
        [\<lparr>name = ''@Acme'', source_user = ''u0'', user_info = at_records ! 0\<rparr>,
         \<lparr>name = ''@acme-org'', source_user = ''u1'', user_info = at_records ! 1\<rparr>],
       current_step := ''evaluate_companies''\<rparr>"
  by (simp add: trace_companies_node_def at_state_def at_records_def
      tool_of_records_def slice_to_def Let_def as_user_info_def extract_company_name_def
      truthy_def strip_def isspace_def)

text \<open>
  C3. Whenever the trace stage completes, for every list of stargazers, every limit and every
  behaviour of the account tool: no two candidates have the same name; the names of the
  candidates are the distinct names of the accounts visited, in the order in which each
  is first seen, names being compared by equality of strings; each candidate carries the
  user and the account record of the first visited account with its name; an account whose
  \<open>company\<close> is empty or absent and whose \<open>organizations\<close> is empty gives no candidate;
  and the three accounts Acme, (none, [Acme-Org]), Acme with limit 3 give exactly the
  candidates Acme from the first account and Acme-Org from the second.
\<close>

theorem trace_companies_node_dedup:
  assumes "current_step (trace_companies_node tool st) = ''evaluate_companies''"
  shows "distinct (map name (companies (trace_companies_node tool st)))
    \<and> map name (companies (trace_companies_node tool st))
        = first_seen (account_names (accounts tool 0 (trace_users st)))
    \<and> map fst (accounts tool 0 (trace_users st)) = trace_users st
    \<and> (\<forall>c \<in> set (companies (trace_companies_node tool st)).
         \<exists>k < length (accounts tool 0 (trace_users st)).
            accounts tool 0 (trace_users st) ! k = (source_user c, user_info c)
          \<and> candidate_name (user_info c) = Some (name c)
          \<and> (\<forall>j<k. candidate_name (snd (accounts tool 0 (trace_users st) ! j)) \<noteq> Some (name c)))
    \<and> (\<forall>c \<in> set (companies (trace_companies_node tool st)).
         truthy (ui_company (user_info c)) \<or> ui_organizations (user_info c) \<noteq> [])
    \<and> map (\<lambda>c. (name c, source_user c))
        (companies (trace_companies_node (tool_of_records scenario_c_records) scenario_c_state))
        = [(''Acme'', ''u0''), (''Acme-Org'', ''u1'')]"
proof -
  let ?out = "companies (trace_companies_node tool st)"
  let ?R = "accounts tool 0 (trace_users st)"
  note run = trace_node_complete [OF assms]
  have names: "map name ?out = first_seen (account_names ?R)"
    using trace_loop_names [OF run] by simp
  then have dist: "distinct (map name ?out)"
    by (simp add: distinct_first_seen)
  have users: "map fst ?R = trace_users st"
    by (rule trace_loop_users [OF run])
  have first: "\<exists>k < length ?R. ?R ! k = (source_user c, user_info c)
          \<and> candidate_name (user_info c) = Some (name c)
          \<and> (\<forall>j<k. candidate_name (snd (?R ! j)) \<noteq> Some (name c))"
    if "c \<in> set ?out" for c
  proof -
    from trace_loop_first [OF run that]
    obtain k where k: "k < length ?R" "?R ! k = (source_user c, user_info c)"
      "candidate_name (snd (?R ! k)) = Some (name c)"
      "\<forall>j<k. candidate_name (snd (?R ! j)) \<noteq> Some (name c)"
      by auto
    from k(2,3) have "candidate_name (user_info c) = Some (name c)" by simp
    with k show ?thesis by blast
  qed
  have src: "truthy (ui_company (user_info c)) \<or> ui_organizations (user_info c) \<noteq> []"
    if "c \<in> set ?out" for c
  proof -
    from first [OF that] have "candidate_name (user_info c) = Some (name c)" by blast
    then have "extract_company_name (user_info c) = Some (name c)"
      by (simp add: candidate_name_Some)
    then show ?thesis
      by (auto simp: extract_company_name_def split: if_splits)
  qed
  have scen: "map (\<lambda>c. (name c, source_user c))
        (companies (trace_companies_node (tool_of_records scenario_c_records) scenario_c_state))
        = [(''Acme'', ''u0''), (''Acme-Org'', ''u1'')]"
    by (simp add: scenario_c_run)
  from dist names users first src scen show ?thesis by blast
qed

theorem trace_companies_node_dedup_witness:
  "current_step (trace_companies_node (tool_of_records scenario_c_records) scenario_c_state)
     = ''evaluate_companies''
   \<and> distinct (map name
       (companies (trace_companies_node (tool_of_records scenario_c_records) scenario_c_state)))
   \<and> map name (companies (trace_companies_node (tool_of_records scenario_c_records) scenario_c_state))
      = [''Acme'', ''Acme-Org'']"
proof -
  have h: "current_step (trace_companies_node (tool_of_records scenario_c_records) scenario_c_state)
     = ''evaluate_companies''"
    by (simp add: scenario_c_run)
  from trace_companies_node_dedup [OF h]
  have "distinct (map name
       (companies (trace_companies_node (tool_of_records scenario_c_records) scenario_c_state)))"
    by (rule conjunct1)
  with h show ?thesis
    by (simp add: scenario_c_run)
qed

text \<open>
  C4, as amended. Every candidate of the trace stage has a non-empty name. A name taken
  from the \<open>company\<close> field is that field stripped of surrounding white space, so it neither
  starts nor ends with white space, and nothing else is removed from it: an at sign at its
  start stays. A name taken from \<open>organizations\<close> is, up to surrounding white space, the
  first entry of the list, an at sign at its start included.
\<close>

theorem trace_candidate_name:
  assumes "current_step (trace_companies_node tool st) = ''evaluate_companies''"
    and "c \<in> set (companies (trace_companies_node tool st))"
  shows "name c \<noteq> []
    \<and> (if truthy (ui_company (user_info c))
       then name c = strip (the (ui_company (user_info c)))
          \<and> strip (name c) = name c
          \<and> \<not> isspace (hd (name c)) \<and> \<not> isspace (last (name c))
       else ui_organizations (user_info c) \<noteq> []
          \<and> strip (name c) = strip (hd (ui_organizations (user_info c))))"
proof -
  from trace_loop_first [OF trace_node_complete [OF assms(1)] assms(2)]
  have "candidate_name (user_info c) = Some (name c)" by auto
  then have e: "extract_company_name (user_info c) = Some (name c)" and ne: "name c \<noteq> []"
    by (simp_all add: candidate_name_Some)
  show ?thesis
  proof (cases "truthy (ui_company (user_info c))")
    case True
    with e have n: "name c = strip (the (ui_company (user_info c)))"
      by (simp add: extract_company_name_def)
    then have "strip (name c) = name c" by (simp add: strip_idem)
    moreover have "\<not> isspace (hd (name c)) \<and> \<not> isspace (last (name c))"
      using strip_trimmed [of "the (ui_company (user_info c))"] ne n by simp
    ultimately show ?thesis using True ne n by simp
  next
    case False
    with e show ?thesis using ne
      by (auto simp: extract_company_name_def split: if_splits)
  qed
qed

theorem trace_candidate_name_witness:
  "current_step (trace_companies_node (tool_of_records at_records) at_state) = ''evaluate_companies''
   \<and> \<lparr>name = ''@Acme'', source_user = ''u0'', user_info = at_records ! 0\<rparr>
       \<in> set (companies (trace_companies_node (tool_of_records at_records) at_state))
   \<and> \<lparr>name = ''@acme-org'', source_user = ''u1'', user_info = at_records ! 1\<rparr>
       \<in> set (companies (trace_companies_node (tool_of_records at_records) at_state))
   \<and> ''@Acme'' = strip ''@Acme''
   \<and> strip ''@acme-org'' = strip (hd (ui_organizations (at_records ! 1)))"
proof -
  have h: "current_step (trace_companies_node (tool_of_records at_records) at_state) = ''evaluate_companies''"
    by (simp add: at_run)
  have m: "\<lparr>name = ''@Acme'', source_user = ''u0'', user_info = at_records ! 0\<rparr>
       \<in> set (companies (trace_companies_node (tool_of_records at_records) at_state))"
    by (simp add: at_run)
  have m': "\<lparr>name = ''@acme-org'', source_user = ''u1'', user_info = at_records ! 1\<rparr>
       \<in> set (companies (trace_companies_node (tool_of_records at_records) at_state))"
    by (simp add: at_run)
  from trace_candidate_name [OF h m] have a: "''@Acme'' = strip ''@Acme''"
    by (simp add: at_records_def truthy_def)
  from trace_candidate_name [OF h m']
  have b: "strip ''@acme-org'' = strip (hd (ui_organizations (at_records ! 1)))"
    by (simp add: at_records_def truthy_def)
  from h m m' a b show ?thesis by blast
qed

text \<open>
  C4, as stated, fails on both paths: an account whose \<open>company\<close> is \<open>@Acme\<close> gives the
  candidate named \<open>@Acme\<close>, and an account without \<open>company\<close> whose first organization is
  \<open>@acme-org\<close> gives the candidate named \<open>@acme-org\<close>, at sign included.
\<close>

theorem trace_keeps_leading_at:
  "companies (trace_companies_node (tool_of_records at_records) at_state)
     = [\<lparr>name = ''@Acme'', source_user = ''u0'', user_info = at_records ! 0\<rparr>,
        \<lparr>name = ''@acme-org'', source_user = ''u1'', user_info = at_records ! 1\<rparr>]
   \<and> ui_company (at_records ! 0) = Some ''@Acme''
   \<and> ui_company (at_records ! 1) = None
   \<and> ui_organizations (at_records ! 1) = [''@acme-org'']
   \<and> hd ''@Acme'' = CHR ''@''
   \<and> hd ''@acme-org'' = CHR ''@''"
  by (simp add: at_run) (simp add: at_records_def)

section \<open>Properties of the workflow\<close>

lemma graph_invoke_initial:
  "graph_invoke f t s (initial_state r ms mu) =
     (if after_fetch (fetched f r ms mu) = ''trace'' then
        (if after_trace (traced f t r ms mu) = ''evaluate''
         then Inr ([Fetch, Trace, Evaluate], evaluate_companies_node s (traced f t r ms mu))
         else Inr ([Fetch, Trace], traced f t r ms mu))
      else Inr ([Fetch], fetched f r ms mu))"
  by (simp add: graph_invoke_def should_continue_def initial_state_def truthy_def Let_def
      fetched_def traced_def)

lemma fetched_error:
  "error (fetched f r ms mu) = Some e \<Longrightarrow> e \<noteq> []"
  by (auto simp: fetched_def fetch_stargazers_node_def initial_state_def
      split: sum.splits fetch_result.splits if_splits)

lemma fetched_fields:
  "companies (fetched f r ms mu) = [] \<and> evaluations (fetched f r ms mu) = []"
  by (auto simp: fetched_def fetch_stargazers_node_def initial_state_def
      split: sum.splits fetch_result.splits if_splits)

lemma fetched_error_stargazers:
  "error (fetched f r ms mu) \<noteq> None \<Longrightarrow> stargazers (fetched f r ms mu) = []"
  by (auto simp: fetched_def fetch_stargazers_node_def initial_state_def
      split: sum.splits fetch_result.splits if_splits)

lemma truthy_fetched: "truthy (error (fetched f r ms mu)) \<longleftrightarrow> error (fetched f r ms mu) \<noteq> None"
  using fetched_error [of f r ms mu] by (auto simp: truthy_def split: option.splits)

lemma traced_cases:
  "(\<exists>e. traced f t r ms mu = (fetched f r ms mu)\<lparr>error := Some (''Error tracing companies: '' @ e),
                 current_step := ''end''\<rparr>)
   \<or> (\<exists>cs. traced f t r ms mu = (fetched f r ms mu)\<lparr>companies := cs,
                 current_step := ''evaluate_companies''\<rparr>)"
  by (auto simp: traced_def trace_companies_node_def Let_def split: sum.splits)

lemma traced_error:
  assumes "error (fetched f r ms mu) = None"
  shows "truthy (error (traced f t r ms mu)) \<longleftrightarrow> error (traced f t r ms mu) \<noteq> None"
  using traced_cases [of f t r ms mu] assms by (auto simp: truthy_def)

lemma traced_error_fields:
  assumes "error (fetched f r ms mu) = None" "error (traced f t r ms mu) \<noteq> None"
  shows "companies (traced f t r ms mu) = [] \<and> evaluations (traced f t r ms mu) = []"
  using traced_cases [of f t r ms mu] assms fetched_fields [of f r ms mu] by auto

lemma traced_evaluations: "evaluations (traced f t r ms mu) = []"
  using traced_cases [of f t r ms mu] fetched_fields [of f r ms mu] by auto

lemma trace_visited:
  "Trace \<in> set (run_visited f t s r ms mu) \<longleftrightarrow>
     error (fetched f r ms mu) = None \<and> stargazers (fetched f r ms mu) \<noteq> []"
  by (auto simp: run_visited_def graph_invoke_initial after_fetch_def truthy_fetched)

lemma evaluate_visited:
  "Evaluate \<in> set (run_visited f t s r ms mu) \<longleftrightarrow>
     error (fetched f r ms mu) = None \<and> stargazers (fetched f r ms mu) \<noteq> []
     \<and> error (traced f t r ms mu) = None \<and> companies (traced f t r ms mu) \<noteq> []"
  by (auto simp: run_visited_def graph_invoke_initial after_fetch_def after_trace_def
      truthy_fetched traced_error)

text \<open>
  C5. If the trace stage runs, records no error and yields no candidate, the run ends
  successfully: \<open>success\<close> is true, \<open>error\<close> is unset and \<open>evaluations\<close> is empty. (The
  workflow goes from \<open>trace\<close> to the end; the evaluation node is not visited.)
\<close>

theorem empty_trace_succeeds:
  assumes "Trace \<in> set (run_visited f t s r ms mu)"
    and "error (traced f t r ms mu) = None"
    and "companies (traced f t r ms mu) = []"
  shows "success (run_agent f t s r ms mu)
    \<and> result_error (run_agent f t s r ms mu) = None
    \<and> result_evaluations (run_agent f t s r ms mu) = []
    \<and> total_companies (run_agent f t s r ms mu) = 0
    \<and> run_visited f t s r ms mu = [Fetch, Trace]"
proof -
  from assms(1) have tr: "after_fetch (fetched f r ms mu) = ''trace''"
    by (simp add: trace_visited after_fetch_def truthy_def)
  from assms(3) have ne: "after_trace (traced f t r ms mu) \<noteq> ''evaluate''"
    by (simp add: after_trace_def)
  from tr ne assms(2,3) traced_evaluations [of f t r ms mu] show ?thesis
    by (simp add: run_agent_def run_visited_def graph_invoke_initial truthy_def)
qed

lemma no_company_run:
  "traced fetch_one (tool_of_records no_company_records) r ms 100 =
     (fetched fetch_one r ms 100)\<lparr>companies := [], current_step := ''evaluate_companies''\<rparr>
   \<and> fetched fetch_one r ms 100 = (initial_state r ms 100)\<lparr>stargazers := [''u0''],
        current_step := ''trace_companies''\<rparr>"
  by (simp add: traced_def fetched_def fetch_one_def fetch_stargazers_node_def initial_state_def
      trace_companies_node_def tool_of_records_def no_company_records_def slice_to_def Let_def
      as_user_info_def extract_company_name_def truthy_def)

theorem empty_trace_succeeds_witness:
  "Trace \<in> set (run_visited fetch_one (tool_of_records no_company_records) search_nothing ''owner/name'' 1000 100)
   \<and> error (traced fetch_one (tool_of_records no_company_records) ''owner/name'' 1000 100) = None
   \<and> companies (traced fetch_one (tool_of_records no_company_records) ''owner/name'' 1000 100) = []
   \<and> success (run_agent fetch_one (tool_of_records no_company_records) search_nothing ''owner/name'' 1000 100)
   \<and> result_evaluations (run_agent fetch_one (tool_of_records no_company_records) search_nothing ''owner/name'' 1000 100) = []"
proof -
  have a: "Trace \<in> set (run_visited fetch_one (tool_of_records no_company_records) search_nothing ''owner/name'' 1000 100)"
    by (simp add: trace_visited no_company_run initial_state_def)
  have b: "error (traced fetch_one (tool_of_records no_company_records) ''owner/name'' 1000 100) = None"
    by (simp add: no_company_run initial_state_def)
  have c: "companies (traced fetch_one (tool_of_records no_company_records) ''owner/name'' 1000 100) = []"
    by (simp add: no_company_run)
  from empty_trace_succeeds [OF a b c] a b c show ?thesis by blast
qed

text \<open>
  C6. If the fetch stage records an error, no later stage runs and the run returns
  \<open>success\<close> false, no evaluations and no companies. An error recorded by the trace stage
  keeps the evaluation stage from running, with the same result. A stage runs only if no
  stage before it recorded an error.
\<close>

theorem error_stops_run:
  "(error (fetched f r ms mu) \<noteq> None \<longrightarrow>
       run_visited f t s r ms mu = [Fetch]
     \<and> \<not> success (run_agent f t s r ms mu)
     \<and> result_error (run_agent f t s r ms mu) = error (fetched f r ms mu)
     \<and> result_evaluations (run_agent f t s r ms mu) = []
     \<and> total_companies (run_agent f t s r ms mu) = 0)
   \<and> (Trace \<in> set (run_visited f t s r ms mu) \<and> error (traced f t r ms mu) \<noteq> None \<longrightarrow>
       run_visited f t s r ms mu = [Fetch, Trace]
     \<and> \<not> success (run_agent f t s r ms mu)
     \<and> result_error (run_agent f t s r ms mu) = error (traced f t r ms mu)
     \<and> result_evaluations (run_agent f t s r ms mu) = []
     \<and> total_companies (run_agent f t s r ms mu) = 0)
   \<and> (Trace \<in> set (run_visited f t s r ms mu) \<longrightarrow> error (fetched f r ms mu) = None)
   \<and> (Evaluate \<in> set (run_visited f t s r ms mu) \<longrightarrow>
        error (fetched f r ms mu) = None \<and> error (traced f t r ms mu) = None)"
proof (intro conjI impI)
  assume e: "error (fetched f r ms mu) \<noteq> None"
  then have nt: "after_fetch (fetched f r ms mu) \<noteq> ''trace''"
    by (simp add: after_fetch_def truthy_fetched)
  from nt show "run_visited f t s r ms mu = [Fetch]"
    by (simp add: run_visited_def graph_invoke_initial)
  from nt e show "\<not> success (run_agent f t s r ms mu)"
    by (simp add: run_agent_def graph_invoke_initial truthy_fetched)
  from nt show "result_error (run_agent f t s r ms mu) = error (fetched f r ms mu)"
    by (simp add: run_agent_def graph_invoke_initial)
  from nt show "result_evaluations (run_agent f t s r ms mu) = []"
    by (simp add: run_agent_def graph_invoke_initial fetched_fields)
  from nt show "total_companies (run_agent f t s r ms mu) = 0"
    by (simp add: run_agent_def graph_invoke_initial fetched_fields)
next
  assume h: "Trace \<in> set (run_visited f t s r ms mu) \<and> error (traced f t r ms mu) \<noteq> None"
  then have f0: "error (fetched f r ms mu) = None" and tr: "after_fetch (fetched f r ms mu) = ''trace''"
    by (simp_all add: trace_visited after_fetch_def truthy_def)
  from h f0 have ne: "after_trace (traced f t r ms mu) \<noteq> ''evaluate''"
    by (simp add: after_trace_def traced_error)
  from tr ne show "run_visited f t s r ms mu = [Fetch, Trace]"
    by (simp add: run_visited_def graph_invoke_initial)
  from tr ne h f0 show "\<not> success (run_agent f t s r ms mu)"
    by (simp add: run_agent_def graph_invoke_initial traced_error)
  from tr ne show "result_error (run_agent f t s r ms mu) = error (traced f t r ms mu)"
    by (simp add: run_agent_def graph_invoke_initial)
  from tr ne show "result_evaluations (run_agent f t s r ms mu) = []"
    by (simp add: run_agent_def graph_invoke_initial traced_evaluations)
  from tr ne h f0 show "total_companies (run_agent f t s r ms mu) = 0"
    using traced_error_fields [of f r ms mu t]
    by (simp add: run_agent_def graph_invoke_initial)
next
  assume "Trace \<in> set (run_visited f t s r ms mu)"
  then show "error (fetched f r ms mu) = None" by (simp add: trace_visited)
next
  assume "Evaluate \<in> set (run_visited f t s r ms mu)"
  then show "error (fetched f r ms mu) = None" by (simp add: evaluate_visited)
next
  assume "Evaluate \<in> set (run_visited f t s r ms mu)"
  then show "error (traced f t r ms mu) = None" by (simp add: evaluate_visited)
qed

lemma fetched_not_found:
  "fetched fetch_not_found r ms mu =
     (initial_state r ms mu)\<lparr>error := Some ''Error: Repository not found'',
        current_step := ''trace_companies''\<rparr>"
  by (simp add: fetched_def fetch_not_found_def fetch_stargazers_node_def initial_state_def)

lemma fetched_one:
  "fetched fetch_one r ms mu =
     (initial_state r ms mu)\<lparr>stargazers := [''u0''], current_step := ''trace_companies''\<rparr>"
  by (simp add: fetched_def fetch_one_def fetch_stargazers_node_def initial_state_def)

lemma traced_no_response:
  "traced fetch_one (tool_of_records []) r ms 100 =
     (fetched fetch_one r ms 100)\<lparr>error := Some ''Error tracing companies: no response'',
        current_step := ''end''\<rparr>"
  by (simp add: traced_def fetched_one trace_companies_node_def tool_of_records_def
      initial_state_def slice_to_def Let_def)

lemma traced_one_company:
  "traced fetch_one (tool_of_records scenario_c_records) r ms 100 =
     (fetched fetch_one r ms 100)\<lparr>companies :=
        [\<lparr>name = ''Acme'', source_user = ''u0'', user_info = scenario_c_records ! 0\<rparr>],
        current_step := ''evaluate_companies''\<rparr>"
  by (simp add: traced_def fetched_one trace_companies_node_def tool_of_records_def
      scenario_c_records_def initial_state_def slice_to_def Let_def as_user_info_def
      extract_company_name_def truthy_def strip_def isspace_def)

theorem error_stops_run_witness:
  "error (fetched fetch_not_found ''invalid/repo'' 1000 100) \<noteq> None
   \<and> run_visited fetch_not_found (tool_of_records []) search_nothing ''invalid/repo'' 1000 100 = [Fetch]
   \<and> \<not> success (run_agent fetch_not_found (tool_of_records []) search_nothing ''invalid/repo'' 1000 100)
   \<and> Trace \<in> set (run_visited fetch_one (tool_of_records []) search_nothing ''owner/name'' 1000 100)
   \<and> error (traced fetch_one (tool_of_records []) ''owner/name'' 1000 100) \<noteq> None
   \<and> run_visited fetch_one (tool_of_records []) search_nothing ''owner/name'' 1000 100 = [Fetch, Trace]
   \<and> Evaluate \<in> set (run_visited fetch_one (tool_of_records scenario_c_records) search_nothing
                        ''owner/name'' 1000 100)
   \<and> error (traced fetch_one (tool_of_records scenario_c_records) ''owner/name'' 1000 100) = None"
proof -
  have a: "error (fetched fetch_not_found ''invalid/repo'' 1000 100) \<noteq> None"
    by (simp add: fetched_not_found)
  have b: "Trace \<in> set (run_visited fetch_one (tool_of_records []) search_nothing ''owner/name'' 1000 100)"
    by (simp add: trace_visited fetched_one initial_state_def)
  have c: "error (traced fetch_one (tool_of_records []) ''owner/name'' 1000 100) \<noteq> None"
    by (simp add: traced_no_response)
  have d: "Evaluate \<in> set (run_visited fetch_one (tool_of_records scenario_c_records) search_nothing
                        ''owner/name'' 1000 100)"
    by (simp add: evaluate_visited traced_one_company fetched_one initial_state_def)
  from error_stops_run [of fetch_not_found "''invalid/repo''" 1000 100 "tool_of_records []" search_nothing]
       error_stops_run [of fetch_one "''owner/name''" 1000 100 "tool_of_records []" search_nothing]
       error_stops_run [of fetch_one "''owner/name''" 1000 100 "tool_of_records scenario_c_records"
                           search_nothing]
       a b c d
  show ?thesis by blast
qed

text \<open>
  C7. \<open>evaluate_company\<close> is a function of its arguments: the evaluation is determined by
  the company name and the case-folded information text alone. Two calls with the same
  name and the same text (even up to the case of its letters, and whatever the account
  record) return the same evaluation: the same score, recommendation, reasons in the same
  order, company size and summary. The function reads and writes no state, so there is
  none in the model.
\<close>

theorem evaluate_company_pure:
  assumes "lower scraped_info = lower scraped_info'"
  shows "evaluate_company company_name scraped_info ui = evaluate_company company_name scraped_info' ui'"
  using assms by (simp add: evaluate_company_def)

theorem evaluate_company_pure_witness:
  "lower ''AI Labs'' = lower ''ai labs''
   \<and> evaluate_company ''Acme'' ''AI Labs'' None
       = evaluate_company ''Acme'' ''ai labs'' (Some (scenario_c_records ! 0))"
proof -
  have h: "lower ''AI Labs'' = lower ''ai labs''"
    by (simp add: lower_def lower_char_def ascii_uppercase_def ascii_lowercase_def
      latin1_uppercase_def latin1_lowercase_def)
  from evaluate_company_pure [OF h] h show ?thesis by blast
qed

section \<open>Properties of the size patterns\<close>

text \<open>
  For every text, the group found by a size pattern is a non-empty string of digits: it
  holds no comma, and removing commas from it changes nothing. The size loop therefore
  returns the number read from the group of the first pattern of the list that matches,
  found at the leftmost position where that pattern matches, and the size is never negative.
\<close>

lemma try_down_Some:
  "try_down f n = Some x \<Longrightarrow> \<exists>m. 0 < m \<and> m \<le> n \<and> f m = Some x"
proof (induction n)
  case 0
  then show ?case by simp
next
  case (Suc n)
  show ?case
  proof (cases "f (Suc n)")
    case None
    with Suc.prems have "try_down f n = Some x" by simp
    from Suc.IH [OF this] show ?thesis by (auto intro: le_SucI)
  next
    case (Some y)
    with Suc.prems have "f (Suc n) = Some x" by simp
    then show ?thesis by blast
  qed
qed

lemma take_run:
  assumes "0 < m" "m \<le> length (takeWhile P s)"
  shows "take m s \<noteq> [] \<and> list_all P (take m s)"
proof -
  have "take m s = take m (takeWhile P s @ dropWhile P s)" by simp
  also have "\<dots> = take m (takeWhile P s)" using assms(2) by (simp del: takeWhile_dropWhile_id)
  finally have e: "take m s = take m (takeWhile P s)" .
  have "set (take m (takeWhile P s)) \<subseteq> set (takeWhile P s)" by (rule set_take_subset)
  then have "list_all P (take m (takeWhile P s))"
    by (auto simp: list_all_iff dest: set_takeWhileD)
  moreover have "take m (takeWhile P s) \<noteq> []" using assms by auto
  ultimately show ?thesis using e by simp
qed

lemma rx_match_group:
  "rx_match items s g = Some g' \<Longrightarrow>
     g' = g \<or> (g' \<noteq> [] \<and> (\<exists>Q. Cap Q \<in> set items \<and> list_all Q g'))"
proof (induction items s g rule: rx_match.induct)
  case (1 s g)
  then show ?case by simp
next
  case (2 l r s g)
  then show ?case by (auto split: if_splits)
next
  case (3 c r s g)
  then show ?case by (auto split: if_splits option.splits)
next
  case (4 P r s g)
  from "4.prems" obtain m where "rx_match r (drop m s) g = Some g'"
    using try_down_Some by fastforce
  from "4.IH" [OF this] show ?case by auto
next
  case (5 P r s g)
  from "5.prems" obtain m where m: "0 < m" "m \<le> length (takeWhile P s)"
      "rx_match r (drop m s) (take m s) = Some g'"
    using try_down_Some [of "\<lambda>n. rx_match r (drop n s) (take n s)"] by auto
  from "5.IH" [OF m(3)] take_run [OF m(1,2)] show ?case by auto
qed

lemma re_search_position:
  "re_search p s = Some g \<Longrightarrow>
     \<exists>i \<le> length s. rx_match p (drop i s) [] = Some g \<and> (\<forall>j<i. rx_match p (drop j s) [] = None)"
proof (induction s)
  case Nil
  then show ?case by simp
next
  case (Cons c cs)
  show ?case
  proof (cases "rx_match p (c # cs) []")
    case (Some g0)
    with Cons.prems have "rx_match p (drop 0 (c # cs)) [] = Some g" by simp
    then have "0 \<le> length (c # cs) \<and> rx_match p (drop 0 (c # cs)) [] = Some g
               \<and> (\<forall>j<0. rx_match p (drop j (c # cs)) [] = None)" by simp
    then show ?thesis by blast
  next
    case None
    with Cons.prems have "re_search p cs = Some g" by simp
    from Cons.IH [OF this] obtain i where i: "i \<le> length cs" "rx_match p (drop i cs) [] = Some g"
      "\<forall>j<i. rx_match p (drop j cs) [] = None" by blast
    have "\<forall>j<Suc i. rx_match p (drop j (c # cs)) [] = None"
    proof (intro allI impI)
      fix j assume "j < Suc i"
      then show "rx_match p (drop j (c # cs)) [] = None"
        using None i(3) by (cases j) auto
    qed
    with i have "Suc i \<le> length (c # cs) \<and> rx_match p (drop (Suc i) (c # cs)) [] = Some g
               \<and> (\<forall>j<Suc i. rx_match p (drop j (c # cs)) [] = None)" by simp
    then show ?thesis by blast
  qed
qed

lemma size_patterns_caps:
  "p \<in> set size_patterns \<Longrightarrow> Cap Q \<in> set p \<Longrightarrow> Q = isdigit"
  by (auto simp: size_patterns_def)

lemma digits_no_comma: "list_all isdigit g \<Longrightarrow> remove_commas g = g"
  by (induction g) (auto simp: remove_commas_def isdigit_def)

lemma rx_match_group_set:
  "\<exists>Q. Cap Q \<in> set items \<Longrightarrow> rx_match items s g = Some g' \<Longrightarrow>
     g' \<noteq> [] \<and> (\<exists>Q. Cap Q \<in> set items \<and> list_all Q g')"
proof (induction items s g rule: rx_match.induct)
  case (1 s g)
  then show ?case by simp
next
  case (2 l r s g)
  then show ?case by (auto split: if_splits)
next
  case (3 c r s g)
  then show ?case by (auto split: if_splits option.splits)
next
  case (4 P r s g)
  from "4.prems"(2) obtain m where "rx_match r (drop m s) g = Some g'"
    using try_down_Some by fastforce
  from "4.IH" [OF _ this] "4.prems"(1) show ?case by auto
next
  case (5 P r s g)
  from "5.prems"(2) obtain m where m: "0 < m" "m \<le> length (takeWhile P s)"
      "rx_match r (drop m s) (take m s) = Some g'"
    using try_down_Some [of "\<lambda>n. rx_match r (drop n s) (take n s)"] by auto
  from rx_match_group [OF m(3)] take_run [OF m(1,2)] show ?case by auto
qed

lemma size_patterns_have_cap: "p \<in> set size_patterns \<Longrightarrow> \<exists>Q. Cap Q \<in> set p"
  by (auto simp: size_patterns_def)

lemma size_group_number:
  assumes "p \<in> set size_patterns" "re_search p s = Some g"
  shows "g \<noteq> [] \<and> list_all isdigit g \<and> CHR '','' \<notin> set g \<and> remove_commas g = g"
proof -
  from re_search_position [OF assms(2)] obtain i where "rx_match p (drop i s) [] = Some g" by blast
  from rx_match_group_set [OF size_patterns_have_cap [OF assms(1)] this]
    size_patterns_caps [OF assms(1)]
  have "g \<noteq> [] \<and> list_all isdigit g" by auto
  then have d: "list_all isdigit g" and ne: "g \<noteq> []" by simp_all
  have "\<not> isdigit CHR '',''" by (simp add: isdigit_def)
  with d have nc: "CHR '','' \<notin> set g" by (auto simp: list_all_iff)
  from digits_no_comma [OF d] d ne nc show ?thesis by simp
qed

lemma size_loop_first_match:
  assumes "set ps \<subseteq> set size_patterns"
  shows "size_loop ps l =
     (case List.find (\<lambda>p. re_search p l \<noteq> None) ps of
        None \<Rightarrow> 0
      | Some p \<Rightarrow> the (py_int (the (re_search p l))))"
  using assms
proof (induction ps)
  case Nil
  then show ?case by simp
next
  case (Cons p ps)
  show ?case
  proof (cases "re_search p l")
    case None
    with Cons show ?thesis by simp
  next
    case (Some g)
    from Cons.prems have "p \<in> set size_patterns" by simp
    from size_group_number [OF this Some] Some show ?thesis
      by (simp add: py_int_def)
  qed
qed

lemma find_company_size_first_match:
  "find_company_size l =
     (case List.find (\<lambda>p. re_search p l \<noteq> None) size_patterns of
        None \<Rightarrow> 0
      | Some p \<Rightarrow> the (py_int (the (re_search p l))))"
  unfolding find_company_size_def by (rule size_loop_first_match) simp

lemma digits_value_nonneg: "0 \<le> a \<Longrightarrow> 0 \<le> foldl (\<lambda>a c. 10 * a + digit_val c) a g"
proof (induction g arbitrary: a)
  case Nil
  then show ?case by simp
next
  case (Cons c g)
  have "0 \<le> digit_val c"
    by (auto simp: digit_val_def split: option.splits if_splits)
  with Cons.prems have "0 \<le> 10 * a + digit_val c" by simp
  from Cons.IH [OF this] show ?case by simp
qed

lemma find_company_size_nonneg: "0 \<le> find_company_size l"
proof (cases "List.find (\<lambda>p. re_search p l \<noteq> None) size_patterns")
  case None
  then show ?thesis by (simp only: find_company_size_first_match) simp
next
  case (Some p)
  then have p: "p \<in> set size_patterns" and "re_search p l \<noteq> None"
    by (auto simp: find_Some_iff)
  then obtain g where g: "re_search p l = Some g" by auto
  from size_group_number [OF p g]
  have "py_int g = Some (foldl (\<lambda>a c. 10 * a + digit_val c) 0 g)"
    by (simp add: py_int_def)
  then have "the (py_int (the (re_search p l))) = foldl (\<lambda>a c. 10 * a + digit_val c) 0 g"
    using g by simp
  moreover have "find_company_size l = the (py_int (the (re_search p l)))"
    by (simp only: find_company_size_first_match Some option.case)
  ultimately show ?thesis using digits_value_nonneg [of 0 g] by simp
qed

section \<open>Properties of the scoring on given texts\<close>

lemma scenario_a_lower:
  "lower scenario_a_text =
     ''ai and machine learning company with web scraping and 500 employees, series b funding''"
  by (simp add: scenario_a_text_def lower_def lower_char_def ascii_uppercase_def ascii_lowercase_def
      latin1_uppercase_def latin1_lowercase_def)

lemma scenario_a_tech:
  "keyword_loop tech_keywords
     ''ai and machine learning company with web scraping and 500 employees, series b funding'' 0 []
   = (55, [''ai'', ''machine learning'', ''scraping'', ''web scraping'', ''api''])"
  by (simp add: tech_keywords_def py_in_def sublist_code)

lemma scenario_a_industry:
  "keyword_loop industry_keywords
     ''ai and machine learning company with web scraping and 500 employees, series b funding'' 0 []
   = (0, [])"
  by (simp add: industry_keywords_def py_in_def sublist_code)

lemma scenario_a_size:
  "find_company_size
     ''ai and machine learning company with web scraping and 500 employees, series b funding'' = 500"
  by (simp add: find_company_size_def size_patterns_def isdigit_def isspace_def
      py_int_def remove_commas_def digit_val_def)

lemma scenario_a_growth:
  "growth_found
     ''ai and machine learning company with web scraping and 500 employees, series b funding''
   = [''series b'', ''funding'']"
  by (simp add: growth_found_def growth_keywords_def py_in_def sublist_code)

lemma scenario_a_data:
  "\<not> list_ex (\<lambda>keyword. py_in keyword
     ''ai and machine learning company with web scraping and 500 employees, series b funding'')
     data_need_keywords"
  by (simp add: data_need_keywords_def py_in_def sublist_code)

lemma scenario_a_tech_score: "tech_score (lower scenario_a_text) = 40"
  by (simp add: tech_score_def tech_raw_def scenario_a_lower scenario_a_tech)

lemma scenario_a_industry_score: "industry_score (lower scenario_a_text) = 0"
  by (simp add: industry_score_def industry_raw_def scenario_a_lower scenario_a_industry)

lemma scenario_a_size_points: "size_points (lower scenario_a_text) = 15"
  by (simp add: size_points_def scenario_a_lower scenario_a_size size_tier_def)

lemma scenario_a_growth_points: "growth_points (lower scenario_a_text) = 10"
  by (simp add: growth_points_def scenario_a_lower scenario_a_growth)

lemma scenario_a_data_points: "data_points (lower scenario_a_text) = 0"
  using scenario_a_data by (simp add: data_points_def scenario_a_lower)

lemma scenario_a_total: "total_score (lower scenario_a_text) = 65"
  by (simp add: total_score_def scenario_a_tech_score scenario_a_industry_score
      scenario_a_size_points scenario_a_growth_points scenario_a_data_points)

lemma recommendation_evaluate_company:
  "recommendation (evaluate_company n t u) = recommend (min (total_score (lower t)) 100)"
  by (simp add: evaluate_company_def Let_def)

text \<open>
  C9, as amended. For the text \<open>AI and machine learning company with web scraping and 500
  employees, Series B funding\<close> the technology sub-score is 40 (at least 35), the size found
  is 500, which is in the tier from 200 up and gives 15 points, the growth points are 10,
  the total is 65 and the recommendation is \<open>Medium Priority\<close>.
\<close>

theorem scenario_a_medium_priority:
  "tech_score (lower scenario_a_text) = 40
   \<and> find_company_size (lower scenario_a_text) = 500
   \<and> size_points (lower scenario_a_text) = 15
   \<and> growth_points (lower scenario_a_text) = 10
   \<and> score (evaluate_company company_name scenario_a_text ui) = 65
   \<and> recommendation (evaluate_company company_name scenario_a_text ui) = ''Medium Priority''"
  using scenario_a_size
  by (simp add: scenario_a_tech_score scenario_a_size_points scenario_a_growth_points
      score_evaluate_company recommendation_evaluate_company scenario_a_total recommend_def
      scenario_a_lower [symmetric])

text \<open>
  C9, as stated, fails: on that text the size contribution is not 20, the score does not
  reach 70 and the recommendation is not \<open>High Priority\<close>.
\<close>

theorem scenario_a_not_high_priority:
  "size_points (lower scenario_a_text) \<noteq> 20
   \<and> \<not> 70 \<le> score (evaluate_company ''TechCorp'' scenario_a_text None)
   \<and> recommendation (evaluate_company ''TechCorp'' scenario_a_text None) \<noteq> ''High Priority''"
  by (simp add: scenario_a_size_points score_evaluate_company recommendation_evaluate_company
      scenario_a_total recommend_def)

lemma lower_thousands: "lower ''1,000 employees'' = ''1,000 employees''"
  by (simp add: lower_def lower_char_def ascii_uppercase_def ascii_lowercase_def
      latin1_uppercase_def latin1_lowercase_def)

lemma lower_plain: "lower ''1000 employees'' = ''1000 employees''"
  by (simp add: lower_def lower_char_def ascii_uppercase_def ascii_lowercase_def
      latin1_uppercase_def latin1_lowercase_def)

lemma thousands_first_pattern:
  "re_search (size_patterns ! 0) (lower ''1,000 employees'') = Some ''000''"
  unfolding lower_thousands
  by (simp add: size_patterns_def isdigit_def isspace_def)

lemma thousands_size: "find_company_size (lower ''1,000 employees'') = 0"
  unfolding lower_thousands
  by (simp add: find_company_size_def size_patterns_def isdigit_def isspace_def
      py_int_def remove_commas_def digit_val_def)

lemma plain_size: "find_company_size (lower ''1000 employees'') = 1000"
  unfolding lower_plain
  by (simp add: find_company_size_def size_patterns_def isdigit_def isspace_def
      py_int_def remove_commas_def digit_val_def)

lemma company_size_evaluate_company:
  "company_size (evaluate_company n t u) =
     (if find_company_size (lower t) > 0 then Size (find_company_size (lower t)) else Unknown)"
  by (simp add: evaluate_company_def Let_def)

text \<open>
  C8 at the input \<open>1,000 employees\<close>. The group \<open>(\d+)\<close> cannot hold a comma, so the first
  pattern matches from the digits after the comma and captures \<open>000\<close>; removing commas from
  the group changes nothing, the size is 0, no points are given and \<open>company_size\<close> is
  \<open>Unknown\<close>. The same count written \<open>1000 employees\<close> gives size 1000 and 20 points.
\<close>

theorem thousands_separator_size_lost:
  "re_search (size_patterns ! 0) (lower ''1,000 employees'') = Some ''000''
   \<and> find_company_size (lower ''1,000 employees'') = 0
   \<and> size_points (lower ''1,000 employees'') = 0
   \<and> company_size (evaluate_company ''Acme'' ''1,000 employees'' None) = Unknown
   \<and> find_company_size (lower ''1000 employees'') = 1000
   \<and> size_points (lower ''1000 employees'') = 20
   \<and> company_size (evaluate_company ''Acme'' ''1000 employees'' None) = Size 1000"
proof -
  have a: "size_points (lower ''1,000 employees'') = 0"
    by (simp only: size_points_def thousands_size) (simp add: size_tier_def)
  have b: "company_size (evaluate_company ''Acme'' ''1,000 employees'' None) = Unknown"
    by (simp only: company_size_evaluate_company thousands_size) simp
  have c: "size_points (lower ''1000 employees'') = 20"
    by (simp only: size_points_def plain_size) (simp add: size_tier_def)
  have d: "company_size (evaluate_company ''Acme'' ''1000 employees'' None) = Size 1000"
    by (simp only: company_size_evaluate_company plain_size) simp
  from thousands_first_pattern thousands_size plain_size a b c d show ?thesis by blast
qed

lemma sum_list_filter_if:
  fixes kws :: "(string \<times> int) list"
  shows "sum_list (map snd (filter P kws)) = sum_list (map (\<lambda>kp. if P kp then snd kp else 0) kws)"
  by (induction kws) auto

lemma sum_list_split:
  fixes kws :: "(string \<times> int) list" and f :: "string \<times> int \<Rightarrow> int"
  shows "sum_list (map f kws) = sum_list (map f (filter Q kws)) + sum_list (map f (filter (\<lambda>kp. \<not> Q kp) kws))"
  by (induction kws) (auto simp: algebra_simps)

lemma scraping_entries:
  "filter (\<lambda>kp. fst kp = ''scraping'' \<or> fst kp = ''web scraping'') tech_keywords
     = [(''scraping'', 15), (''web scraping'', 15)]"
  by (simp add: tech_keywords_def)

lemma scraping_in_web_scraping: "py_in ''scraping'' l" if "py_in ''web scraping'' l"
proof -
  have "sublist ''scraping'' ''web scraping''" by (simp add: sublist_code)
  moreover from that have "sublist ''web scraping'' l" by (simp add: py_in_def)
  ultimately show ?thesis
    unfolding py_in_def by (rule sublist_order.order.trans)
qed

lemma found_tech_eq: "found_tech l = map fst (filter (\<lambda>kp. py_in (fst kp) l) tech_keywords)"
  by (simp add: found_tech_def keyword_loop_eq)

lemma found_tech_mem:
  "k \<in> set (found_tech l) \<longleftrightarrow> k \<in> fst ` set tech_keywords \<and> py_in k l"
  by (auto simp: found_tech_eq)

lemma tech_keys:
  "''ai'' \<in> fst ` set tech_keywords \<and> ''scraping'' \<in> fst ` set tech_keywords
   \<and> ''web scraping'' \<in> fst ` set tech_keywords"
  by (simp add: tech_keywords_def)

lemma found_industries_eq:
  "found_industries l = map fst (filter (\<lambda>kp. py_in (fst kp) l) industry_keywords)"
  by (simp add: found_industries_def keyword_loop_eq)

lemma reasons_evaluate_company: "reasons (evaluate_company n t u) = reasons_of (lower t)"
  by (simp add: evaluate_company_def Let_def)

lemma weights_nonneg:
  fixes kws :: "(string \<times> int) list"
  assumes "\<forall>kp \<in> set kws. 0 \<le> snd kp"
  shows "0 \<le> sum_list (map (\<lambda>kp. if P kp then snd kp else 0) (filter Q kws))"
  using assms by (induction kws) auto

lemma evaluate_company_parts:
  assumes "lower t = l"
    and "keyword_loop tech_keywords l 0 [] = (ts, tf)"
    and "keyword_loop industry_keywords l 0 [] = (0, [])"
    and "find_company_size l = 0"
    and "growth_found l = []"
    and "\<not> list_ex (\<lambda>keyword. py_in keyword l) data_need_keywords"
  shows "score (evaluate_company n t u) = min (min ts 40) 100
    \<and> reasons (evaluate_company n t u)
        = (if tf \<noteq> [] then [''Uses relevant technologies: '' @ join '', '' (take 3 tf)] else [])"
  using assms
  by (simp add: score_evaluate_company reasons_evaluate_company total_score_def tech_score_def
      industry_score_def tech_raw_def industry_raw_def size_points_def size_tier_def
      growth_points_def data_points_def reasons_of_def found_tech_def found_industries_def)

lemma web_scraping_lower: "lower ''Web Scraping'' = ''web scraping''"
  by (simp add: lower_def lower_char_def ascii_uppercase_def ascii_lowercase_def
      latin1_uppercase_def latin1_lowercase_def)

lemma machine_learning_lower: "lower ''Machine Learning'' = ''machine learning''"
  by (simp add: lower_def lower_char_def ascii_uppercase_def ascii_lowercase_def
      latin1_uppercase_def latin1_lowercase_def)

lemma spain_lower: "lower ''Machine learning in Spain'' = ''machine learning in spain''"
  by (simp add: lower_def lower_char_def ascii_uppercase_def ascii_lowercase_def
      latin1_uppercase_def latin1_lowercase_def)

lemma web_scraping_parts:
  "keyword_loop tech_keywords ''web scraping'' 0 [] = (35, [''scraping'', ''web scraping'', ''api''])
   \<and> keyword_loop industry_keywords ''web scraping'' 0 [] = (0, [])
   \<and> find_company_size ''web scraping'' = 0
   \<and> growth_found ''web scraping'' = []
   \<and> \<not> list_ex (\<lambda>keyword. py_in keyword ''web scraping'') data_need_keywords"
  by (simp add: tech_keywords_def industry_keywords_def growth_found_def growth_keywords_def
      data_need_keywords_def py_in_def sublist_code find_company_size_def size_patterns_def
      isdigit_def isspace_def)

lemma machine_learning_parts:
  "keyword_loop tech_keywords ''machine learning'' 0 [] = (10, [''machine learning''])
   \<and> keyword_loop industry_keywords ''machine learning'' 0 [] = (0, [])
   \<and> find_company_size ''machine learning'' = 0
   \<and> growth_found ''machine learning'' = []
   \<and> \<not> list_ex (\<lambda>keyword. py_in keyword ''machine learning'') data_need_keywords"
  by (simp add: tech_keywords_def industry_keywords_def growth_found_def growth_keywords_def
      data_need_keywords_def py_in_def sublist_code find_company_size_def size_patterns_def
      isdigit_def isspace_def)

lemma spain_parts:
  "keyword_loop tech_keywords ''machine learning in spain'' 0 [] = (20, [''ai'', ''machine learning''])
   \<and> keyword_loop industry_keywords ''machine learning in spain'' 0 [] = (0, [])
   \<and> find_company_size ''machine learning in spain'' = 0
   \<and> growth_found ''machine learning in spain'' = []
   \<and> \<not> list_ex (\<lambda>keyword. py_in keyword ''machine learning in spain'') data_need_keywords"
  by (simp add: tech_keywords_def industry_keywords_def growth_found_def growth_keywords_def
      data_need_keywords_def py_in_def sublist_code find_company_size_def size_patterns_def
      isdigit_def isspace_def)

lemma web_scraping_evaluation:
  "score (evaluate_company n ''Web Scraping'' u) = 35
   \<and> reasons (evaluate_company n ''Web Scraping'' u)
       = [''Uses relevant technologies: scraping, web scraping, api'']"
  using evaluate_company_parts [OF web_scraping_lower, of 35 "[''scraping'', ''web scraping'', ''api'']" n u]
    web_scraping_parts
  by simp

lemma machine_learning_evaluation:
  "score (evaluate_company n ''Machine Learning'' u) = 10
   \<and> reasons (evaluate_company n ''Machine Learning'' u)
       = [''Uses relevant technologies: machine learning'']"
  using evaluate_company_parts [OF machine_learning_lower, of 10 "[''machine learning'']" n u]
    machine_learning_parts
  by simp

lemma spain_evaluation:
  "score (evaluate_company n ''Machine learning in Spain'' u) = 20
   \<and> reasons (evaluate_company n ''Machine learning in Spain'' u)
       = [''Uses relevant technologies: ai, machine learning'']"
  using evaluate_company_parts [OF spain_lower, of 20 "[''ai'', ''machine learning'']" n u]
    spain_parts
  by simp

lemma scenario_a_found_tech:
  "found_tech (lower scenario_a_text)
     = [''ai'', ''machine learning'', ''scraping'', ''web scraping'', ''api'']"
  by (simp add: found_tech_def scenario_a_lower scenario_a_tech)

text \<open>
  C10. Keywords are matched by substring search on the case-folded text, and every
  keyword that matches adds its weight on its own. The score of \<open>evaluate_company\<close> is
  the capped sum whose technology and industry parts are the sums, over the whole table, of
  the weights of the keywords that occur in the case-folded text, capped at 40 and 30; the
  keywords found are those of the table that occur, in the order of the table, and the
  first three of them make the first reason. A text that contains \<open>web scraping\<close>, in
  any case of its letters, matches both \<open>web scraping\<close> and \<open>scraping\<close>, which add 15 each
  to what the other keywords add, so that the uncapped technology sum and the score are at
  least 30; the text \<open>Web Scraping\<close> alone scores 35, \<open>api\<close> being found inside \<open>scraping\<close>.
  The keyword \<open>ai\<close> matches exactly when the letters \<open>ai\<close> occur somewhere in the
  case-folded text: \<open>machine learning\<close> does not contain them and scores 10, while
  \<open>Machine learning in Spain\<close> scores 20, \<open>ai\<close> being found inside \<open>Spain\<close>.
\<close>

theorem keyword_matches_independent:
  "score (evaluate_company company_name t ui)
     = min (min (sum_list (map (\<lambda>kp. if py_in (fst kp) (lower t) then snd kp else 0) tech_keywords)) 40
            + min (sum_list (map (\<lambda>kp. if py_in (fst kp) (lower t) then snd kp else 0) industry_keywords)) 30
            + size_points (lower t) + growth_points (lower t) + data_points (lower t)) 100
   \<and> tech_raw (lower t)
     = sum_list (map (\<lambda>kp. if py_in (fst kp) (lower t) then snd kp else 0) tech_keywords)
   \<and> industry_raw (lower t)
     = sum_list (map (\<lambda>kp. if py_in (fst kp) (lower t) then snd kp else 0) industry_keywords)
   \<and> found_tech (lower t) = map fst (filter (\<lambda>kp. py_in (fst kp) (lower t)) tech_keywords)
   \<and> found_industries (lower t) = map fst (filter (\<lambda>kp. py_in (fst kp) (lower t)) industry_keywords)
   \<and> (found_tech (lower t) \<noteq> [] \<longrightarrow>
         reasons (evaluate_company company_name t ui) \<noteq> []
       \<and> hd (reasons (evaluate_company company_name t ui))
           = ''Uses relevant technologies: '' @ join '', '' (take 3 (found_tech (lower t))))
   \<and> (py_in ''web scraping'' (lower t) \<longrightarrow>
         ''web scraping'' \<in> set (found_tech (lower t))
       \<and> ''scraping'' \<in> set (found_tech (lower t))
       \<and> tech_raw (lower t) = 15 + 15
           + sum_list (map (\<lambda>kp. if py_in (fst kp) (lower t) then snd kp else 0)
               (filter (\<lambda>kp. \<not> (fst kp = ''scraping'' \<or> fst kp = ''web scraping'')) tech_keywords))
       \<and> 30 \<le> tech_raw (lower t)
       \<and> 30 \<le> score (evaluate_company company_name t ui))
   \<and> (''ai'' \<in> set (found_tech (lower t)) \<longleftrightarrow> (\<exists>pre post. lower t = pre @ ''ai'' @ post))
   \<and> \<not> py_in ''ai'' ''machine learning''
   \<and> score (evaluate_company company_name ''Web Scraping'' ui) = 35
   \<and> reasons (evaluate_company company_name ''Web Scraping'' ui)
       = [''Uses relevant technologies: scraping, web scraping, api'']
   \<and> score (evaluate_company company_name ''Machine Learning'' ui) = 10
   \<and> reasons (evaluate_company company_name ''Machine Learning'' ui)
       = [''Uses relevant technologies: machine learning'']
   \<and> score (evaluate_company company_name ''Machine learning in Spain'' ui) = 20
   \<and> reasons (evaluate_company company_name ''Machine learning in Spain'' ui)
       = [''Uses relevant technologies: ai, machine learning'']"
proof -
  let ?l = "lower t"
  let ?f = "\<lambda>kp. if py_in (fst kp) ?l then snd kp else (0::int)"
  let ?rest = "sum_list (map ?f
               (filter (\<lambda>kp. \<not> (fst kp = ''scraping'' \<or> fst kp = ''web scraping'')) tech_keywords))"
  have a: "tech_raw ?l = sum_list (map ?f tech_keywords)"
    by (simp add: tech_raw_def keyword_loop_eq sum_list_filter_if)
  have b: "industry_raw ?l = sum_list (map ?f industry_keywords)"
    by (simp add: industry_raw_def keyword_loop_eq sum_list_filter_if)
  have sc: "score (evaluate_company company_name t ui)
     = min (min (tech_raw ?l) 40 + min (industry_raw ?l) 30
            + size_points ?l + growth_points ?l + data_points ?l) 100"
    by (simp add: score_evaluate_company total_score_def tech_score_def industry_score_def)
  have s: "score (evaluate_company company_name t ui)
     = min (min (sum_list (map ?f tech_keywords)) 40 + min (sum_list (map ?f industry_keywords)) 30
            + size_points ?l + growth_points ?l + data_points ?l) 100"
    unfolding sc a b by (rule refl)
  have r: "reasons (evaluate_company company_name t ui) \<noteq> []
       \<and> hd (reasons (evaluate_company company_name t ui))
           = ''Uses relevant technologies: '' @ join '', '' (take 3 (found_tech ?l))"
    if "found_tech ?l \<noteq> []"
    using that by (simp add: reasons_evaluate_company reasons_of_def)
  have c: "''web scraping'' \<in> set (found_tech ?l) \<and> ''scraping'' \<in> set (found_tech ?l)
       \<and> tech_raw ?l = 15 + 15 + ?rest
       \<and> 30 \<le> tech_raw ?l
       \<and> 30 \<le> score (evaluate_company company_name t ui)"
    if w: "py_in ''web scraping'' ?l"
  proof -
    note s' = scraping_in_web_scraping [OF w]
    have "sum_list (map ?f tech_keywords)
        = sum_list (map ?f [(''scraping'', 15), (''web scraping'', 15)]) + ?rest"
      using sum_list_split [of ?f tech_keywords "\<lambda>kp. fst kp = ''scraping'' \<or> fst kp = ''web scraping''"]
      by (simp only: scraping_entries)
    moreover have "sum_list (map ?f [(''scraping'', 15), (''web scraping'', 15)]) = 15 + 15"
      using w s' by simp
    ultimately have raw: "tech_raw ?l = 15 + 15 + ?rest"
      using a by simp
    have "0 \<le> ?rest"
      by (rule weights_nonneg [OF tech_keywords_nonneg])
    with raw have low: "30 \<le> tech_raw ?l" by simp
    have "30 \<le> score (evaluate_company company_name t ui)"
      using low industry_raw_nonneg [of ?l] size_points_range [of ?l]
        growth_points_range [of ?l] data_points_range [of ?l]
      unfolding sc by (simp add: min_def)
    with raw low w s' tech_keys show ?thesis
      by (simp only: found_tech_mem)
  qed
  have d: "''ai'' \<in> set (found_tech ?l) \<longleftrightarrow> (\<exists>pre post. ?l = pre @ ''ai'' @ post)"
    using tech_keys by (simp add: found_tech_mem py_in_def sublist_def)
  have e: "\<not> py_in ''ai'' ''machine learning''"
    by (simp add: py_in_def sublist_code)
  from s a b found_tech_eq [of ?l] found_industries_eq [of ?l] r c d e
    web_scraping_evaluation [of company_name ui] machine_learning_evaluation [of company_name ui]
    spain_evaluation [of company_name ui]
  show ?thesis by blast
qed

theorem keyword_matches_independent_witness:
  "py_in ''web scraping'' (lower scenario_a_text)
   \<and> found_tech (lower scenario_a_text) \<noteq> []
   \<and> ''web scraping'' \<in> set (found_tech (lower scenario_a_text))
   \<and> ''scraping'' \<in> set (found_tech (lower scenario_a_text))
   \<and> tech_raw (lower scenario_a_text) = 55
   \<and> 30 \<le> score (evaluate_company ''TechCorp'' scenario_a_text None)
   \<and> hd (reasons (evaluate_company ''TechCorp'' scenario_a_text None))
       = ''Uses relevant technologies: ai, machine learning, scraping''"
proof -
  have h: "py_in ''web scraping'' (lower scenario_a_text)"
    by (simp add: scenario_a_lower py_in_def sublist_code)
  have h': "found_tech (lower scenario_a_text) \<noteq> []"
    by (simp add: scenario_a_found_tech)
  have r: "tech_raw (lower scenario_a_text) = 55"
    by (simp add: tech_raw_def scenario_a_lower scenario_a_tech)
  have j: "''Uses relevant technologies: '' @ join '', '' (take 3 (found_tech (lower scenario_a_text)))
      = ''Uses relevant technologies: ai, machine learning, scraping''"
    by (simp add: scenario_a_found_tech)
  from keyword_matches_independent [of "''TechCorp''" scenario_a_text None] h h'
  have "''web scraping'' \<in> set (found_tech (lower scenario_a_text))
     \<and> ''scraping'' \<in> set (found_tech (lower scenario_a_text))
     \<and> 30 \<le> score (evaluate_company ''TechCorp'' scenario_a_text None)
     \<and> hd (reasons (evaluate_company ''TechCorp'' scenario_a_text None))
         = ''Uses relevant technologies: '' @ join '', '' (take 3 (found_tech (lower scenario_a_text)))"
    by blast
  with h h' r j show ?thesis by simp
qed

end
